theory Spec2Isabelle
  imports Main
begin

section \<open>JavaScript strings\<close>

text \<open>
  A JavaScript string is modelled as a \<^typ>\<open>string\<close>, one \<^typ>\<open>char\<close> per code unit
  (code units below 256). The string methods used by the two screens are written out:
  \<open>startsWith\<close>, \<open>substring\<close>, \<open>slice\<close>, \<open>trim\<close>, \<open>replace\<close> with a string pattern,
  and the three regular expressions \<open>/\D/g\<close>, \<open>/^\d+$/\<close> and \<open>/^[17]\d{8}$/\<close>.
\<close>

definition is_digit :: "char \<Rightarrow> bool" where
  "is_digit c = (c \<in> set ''0123456789'')"

text \<open>White space as \<open>trim\<close> and \<open>parseInt\<close> see it: TAB, LF, VT, FF, CR, SP and NBSP.\<close>

definition is_space :: "char \<Rightarrow> bool" where
  "is_space c = (of_char c \<in> set [9, 10, 11, 12, 13, 32, 160 :: nat])"

definition trim :: "string \<Rightarrow> string" where
  "trim s = rev (dropWhile is_space (rev (dropWhile is_space s)))"

definition startsWith :: "string \<Rightarrow> string \<Rightarrow> bool" where
  "startsWith s p = (take (length p) s = p)"

text \<open>\<open>s.replace(pat, rep)\<close> with a string pattern: only the first occurrence is replaced.\<close>

fun js_replace :: "string \<Rightarrow> string \<Rightarrow> string \<Rightarrow> string" where
  "js_replace pat rep [] = (if pat = [] then rep else [])"
| "js_replace pat rep (c # cs) =
     (if take (length pat) (c # cs) = pat then rep @ drop (length pat) (c # cs)
      else c # js_replace pat rep cs)"

text \<open>\<open>/^\d+$/.test(s)\<close>\<close>

definition all_digits :: "string \<Rightarrow> bool" where
  "all_digits s = (s \<noteq> [] \<and> list_all is_digit s)"

text \<open>\<open>/^[17]\d{8}$/.test(s)\<close>\<close>

definition phone_digits_ok :: "string \<Rightarrow> bool" where
  "phone_digits_ok s =
     (case s of
        [] \<Rightarrow> False
      | c # cs \<Rightarrow> (c = CHR ''1'' \<or> c = CHR ''7'') \<and> length cs = 8 \<and> list_all is_digit cs)"

section \<open>auth.tsx: the phone field\<close>

text \<open>
  \<^verbatim>\<open>
  const formatPhoneNumber = (phone: string): string => {
    if (!phone.startsWith('+254')) { return '+254'; }
    const digits = phone.substring(4).replace(/\D/g, '');
    const limitedDigits = digits.substring(0, 9);
    return '+254' + limitedDigits;
  };
  \<close>
\<close>

definition formatPhoneNumber :: "string \<Rightarrow> string" where
  "formatPhoneNumber phone =
     (if \<not> startsWith phone ''+254'' then ''+254''
      else
        let digits = filter is_digit (drop 4 phone);
            limitedDigits = take 9 digits
        in ''+254'' @ limitedDigits)"

text \<open>
  The pattern the specification asks of a stored phone number: \<open>+254\<close> followed by exactly
  nine digits, the first of them \<open>1\<close> or \<open>7\<close>.
\<close>

definition stored_phone_pattern :: "string \<Rightarrow> bool" where
  "stored_phone_pattern p = (startsWith p ''+254'' \<and> phone_digits_ok (drop 4 p))"

section \<open>JavaScript numbers\<close>

text \<open>
  A number is an IEEE 754 double. The numbers of this program are counts: integers, the
  two infinities and \<open>NaN\<close>; a finite one is \<open>Finite n\<close> with \<open>n\<close> the integer it stands for
  (no difference is made between the two zeros, which print and add alike here).
  Integers up to \<open>2^53\<close> in absolute value are doubles; a larger integer is rounded to the
  nearest double, a tie to the one with the even significand, and from \<open>2^1024\<close> on to
  an infinity.
\<close>

datatype number = NaN | Infinity | Neg_Infinity | Finite int

text \<open>The distance between neighbouring doubles at \<open>n\<close>: 1 below \<open>2^53\<close>, doubling with \<open>n\<close>.\<close>

function ulp :: "nat \<Rightarrow> nat" where
  "ulp n = (if n < 2 ^ 53 then 1 else 2 * ulp (n div 2))"
  by pat_completeness auto
termination
  by (relation "measure id") auto

declare ulp.simps [simp del]

definition round_to_double :: "nat \<Rightarrow> nat" where
  "round_to_double n =
     (let q = ulp n;
          d = n div q;
          r = n mod q;
          d' = (if 2 * r < q then d
                else if q < 2 * r then d + 1
                else if even d then d else d + 1)
      in d' * q)"

definition to_number :: "int \<Rightarrow> number" where
  "to_number n =
     (let a = round_to_double (nat \<bar>n\<bar>)
      in if 2 ^ 1024 \<le> a then (if n < 0 then Neg_Infinity else Infinity)
         else Finite (if n < 0 then - int a else int a))"

text \<open>\<open>x + y\<close>: the exact sum, rounded.\<close>

fun num_add :: "number \<Rightarrow> number \<Rightarrow> number" where
  "num_add (Finite a) (Finite b) = to_number (a + b)"
| "num_add NaN y = NaN"
| "num_add x NaN = NaN"
| "num_add Infinity Neg_Infinity = NaN"
| "num_add Neg_Infinity Infinity = NaN"
| "num_add Infinity y = Infinity"
| "num_add x Infinity = Infinity"
| "num_add Neg_Infinity y = Neg_Infinity"
| "num_add x Neg_Infinity = Neg_Infinity"

text \<open>\<open>isNaN(x)\<close> and \<open>x < 0\<close>.\<close>

definition isNaN :: "number \<Rightarrow> bool" where
  "isNaN x = (x = NaN)"

definition negative :: "number \<Rightarrow> bool" where
  "negative x = (case x of Finite n \<Rightarrow> n < 0 | Neg_Infinity \<Rightarrow> True | _ \<Rightarrow> False)"

text \<open>
  A number in a JSON body, as \<open>JSON.stringify\<close> writes it: \<open>NaN\<close> and the infinities become
  \<open>null\<close>, here \<open>None\<close>.
\<close>

definition json_number :: "number \<Rightarrow> int option" where
  "json_number x = (case x of Finite n \<Rightarrow> Some n | _ \<Rightarrow> None)"

text \<open>
  \<^verbatim>\<open>parseInt(s)\<close> with no radix: leading white space is skipped, one sign is read, a
  \<open>0x\<close>/\<open>0X\<close> prefix selects radix 16, and the longest run of digits of the radix is read.
  \<open>parseInt_mathInt\<close> is the integer the digits write, with the sign, and \<open>None\<close> when
  there is no digit; \<open>parseInt\<close> is the number returned: \<open>NaN\<close> with no digit, and
  otherwise the double nearest to that integer.
\<close>

definition digit_value :: "char \<Rightarrow> nat" where
  "digit_value c =
     (if c \<in> set ''0123456789'' then of_char c - 48
      else if c \<in> set ''abcdef'' then of_char c - 87
      else of_char c - 55)"

definition is_radix_digit :: "nat \<Rightarrow> char \<Rightarrow> bool" where
  "is_radix_digit radix c =
     (if radix = 16 then c \<in> set ''0123456789abcdefABCDEF'' else is_digit c)"

definition parseInt_mathInt :: "string \<Rightarrow> int option" where
  "parseInt_mathInt s =
     (let t = dropWhile is_space s;
          neg = (take 1 t = ''-'');
          t1 = (if take 1 t = ''-'' \<or> take 1 t = ''+'' then drop 1 t else t);
          hex = (take 2 t1 = ''0x'' \<or> take 2 t1 = ''0X'');
          radix = (if hex then 16 else 10);
          t2 = (if hex then drop 2 t1 else t1);
          ds = takeWhile (is_radix_digit radix) t2;
          v = foldl (\<lambda>a c. a * radix + digit_value c) 0 ds
      in if ds = [] then None else Some (if neg then - int v else int v))"

definition parseInt :: "string \<Rightarrow> number" where
  "parseInt s = (case parseInt_mathInt s of None \<Rightarrow> NaN | Some v \<Rightarrow> to_number v)"

section \<open>JavaScript dates\<close>

text \<open>
  A \<open>Date\<close> is either invalid or an instant, given by the UTC calendar fields that
  \<open>toISOString\<close> prints (month \<open>1..12\<close>). \<open>toISOString\<close> throws a \<open>RangeError\<close> on an invalid
  date, here \<open>None\<close>; it prints a year from 0 to 9999 with four digits and any other year
  with a sign and six digits.
\<close>

record utc_time =
  utc_year :: int
  utc_month :: nat
  utc_day :: nat
  utc_hours :: nat
  utc_minutes :: nat
  utc_seconds :: nat
  utc_milliseconds :: nat

datatype js_date = Invalid_Date | UTC utc_time

definition digit_char :: "nat \<Rightarrow> char" where
  "digit_char d = ''0123456789'' ! (d mod 10)"

definition padded :: "nat \<Rightarrow> nat \<Rightarrow> string" where
  "padded w k = map (\<lambda>i. digit_char (k div 10 ^ i)) (rev [0..<w])"

definition iso_year :: "int \<Rightarrow> string" where
  "iso_year y =
     (if 0 \<le> y \<and> y \<le> 9999 then padded 4 (nat y)
      else if y < 0 then ''-'' @ padded 6 (nat (- y))
      else ''+'' @ padded 6 (nat y))"

definition toISOString :: "js_date \<Rightarrow> string option" where
  "toISOString d =
     (case d of
        Invalid_Date \<Rightarrow> None
      | UTC t \<Rightarrow>
          Some (iso_year (utc_year t) @ ''-'' @ padded 2 (utc_month t) @ ''-'' @
                padded 2 (utc_day t) @ ''T'' @ padded 2 (utc_hours t) @ '':'' @
                padded 2 (utc_minutes t) @ '':'' @ padded 2 (utc_seconds t) @ ''.'' @
                padded 3 (utc_milliseconds t) @ ''Z''))"

text \<open>A calendar date and time of day, as the fields of a valid \<open>Date\<close> are.\<close>

definition valid_utc_time :: "utc_time \<Rightarrow> bool" where
  "valid_utc_time t =
     (1 \<le> utc_month t \<and> utc_month t \<le> 12 \<and> 1 \<le> utc_day t \<and> utc_day t \<le> 31 \<and>
      utc_hours t < 24 \<and> utc_minutes t < 60 \<and> utc_seconds t < 60 \<and>
      utc_milliseconds t < 1000)"

section \<open>The remote record store\<close>

text \<open>
  Modelled from the spec: the hosted backend behind \<open>lib/supabase\<close> is not part of the
  sources. It is the generic record store of the specification, with the tables \<open>users\<close>
  and \<open>sales\<close> and the operations select, insert and upsert. A table is the list of its
  rows in the order the store returns them. Every remote call either is answered by the
  store or fails as a whole (flag \<open>ok\<close>); a failed write changes nothing. The client
  library never throws: it returns a pair \<open>{ data, error }\<close>.
\<close>

record users_row =
  users_id :: string
  users_phone_number :: string
  users_name :: string
  users_id_number :: string
  users_password :: string
  users_is_admin :: bool

record sales_row =
  sales_user_id :: string
  sales_connections :: int
  sales_month_year :: string
  sales_updated_at :: string

record store =
  users :: "users_row list"
  sales :: "sales_row list"

datatype pg_error = PGRST116 | Request_failed | Not_null_violation | Foreign_key_violation

type_synonym 'a response = "'a option \<times> pg_error option"

text \<open>
  \<open>.single()\<close>: exactly one row is the data; no row, or several, is the error \<open>PGRST116\<close>.
\<close>

definition single :: "bool \<Rightarrow> 'a list \<Rightarrow> 'a response" where
  "single ok rows =
     (if \<not> ok then (None, Some Request_failed)
      else case rows of [r] \<Rightarrow> (Some r, None) | _ \<Rightarrow> (None, Some PGRST116))"

definition select_rows :: "bool \<Rightarrow> 'a list \<Rightarrow> 'a list response" where
  "select_rows ok rows = (if ok then (Some rows, None) else (None, Some Request_failed))"

definition insert_user :: "bool \<Rightarrow> users_row \<Rightarrow> store \<Rightarrow> users_row response \<times> store" where
  "insert_user ok row st =
     (if ok then ((Some row, None), st\<lparr>users := users st @ [row]\<rparr>)
      else ((None, Some Request_failed), st))"

text \<open>
  \<open>upsert(row, { onConflict: 'user_id,month_year' })\<close>: the row that has the key of the new
  one is replaced where it stands; with no such row the new one is added. The body of the
  request is JSON, so its \<open>connections\<close> is an integer or \<open>null\<close>. The column holds
  integers: the store refuses \<open>null\<close>. The schema of the \<open>sales\<close> table is not in the
  sources either, so whether its \<open>user_id\<close> references \<open>users\<close> is a parameter
  (\<open>references_users\<close>): a store that enforces the reference refuses a row whose user does
  not exist.
\<close>

record sales_body =
  body_user_id :: string
  body_connections :: "int option"
  body_month_year :: string
  body_updated_at :: string

definition sales_key :: "sales_row \<Rightarrow> string \<times> string" where
  "sales_key r = (sales_user_id r, sales_month_year r)"

fun upsert_row :: "sales_row \<Rightarrow> sales_row list \<Rightarrow> sales_row list" where
  "upsert_row r [] = [r]"
| "upsert_row r (x # xs) =
     (if sales_key x = sales_key r then r # xs else x # upsert_row r xs)"

definition upsert :: "bool \<Rightarrow> bool \<Rightarrow> sales_body \<Rightarrow> store \<Rightarrow> pg_error option \<times> store" where
  "upsert ok references_users body st =
     (if \<not> ok then (Some Request_failed, st)
      else
        (case body_connections body of
           None \<Rightarrow> (Some Not_null_violation, st)
         | Some c \<Rightarrow>
             if references_users \<and> body_user_id body \<notin> set (map users_id (users st))
             then (Some Foreign_key_violation, st)
             else (None,
                   st\<lparr>sales := upsert_row
                      \<lparr>sales_user_id = body_user_id body, sales_connections = c,
                       sales_month_year = body_month_year body,
                       sales_updated_at = body_updated_at body\<rparr> (sales st)\<rparr>)))"

text \<open>
  The leaderboard query: the \<open>sales\<close> rows of the month, ordered by \<open>connections\<close>
  descending (rows with equal counts keep the order of the table), each joined with the
  name of its user; \<open>users!inner\<close> drops a row whose user is not found. A row carries the
  count as the ledger holds it; every count that \<open>handleSubmit\<close> writes is a double already.
\<close>

record leaderboard_row =
  row_user_id :: string
  row_connections :: "int option"
  row_users_name :: "string option"

definition join_user :: "users_row list \<Rightarrow> sales_row \<Rightarrow> leaderboard_row list" where
  "join_user us s =
     (case find (\<lambda>u. users_id u = sales_user_id s) us of
        None \<Rightarrow> []
      | Some u \<Rightarrow>
          [\<lparr>row_user_id = sales_user_id s, row_connections = Some (sales_connections s),
            row_users_name = Some (users_name u)\<rparr>])"

definition select_leaderboard :: "store \<Rightarrow> string \<Rightarrow> leaderboard_row list" where
  "select_leaderboard st month =
     concat (map (join_user (users st))
       (sort_key (\<lambda>s. - sales_connections s)
          (filter (\<lambda>s. sales_month_year s = month) (sales st))))"

section \<open>auth.tsx: validation and registration\<close>

record FormData =
  idNumber :: string
  phoneNumber :: string
  name :: string
  password :: string
  confirmPassword :: string

text \<open>
  \<open>validateForm\<close> collects the messages in an object, one key per field, and succeeds when
  the object has no key. The object is the list of its entries.
\<close>

definition validateForm_errors :: "bool \<Rightarrow> FormData \<Rightarrow> (string \<times> string) list" where
  "validateForm_errors isLogin formData =
     (if \<not> isLogin then
        (if trim (idNumber formData) = [] then [(''idNumber'', ''ID number is required'')]
         else if length (trim (idNumber formData)) < 8
           then [(''idNumber'', ''ID number must be at least 8 digits'')]
         else if \<not> all_digits (trim (idNumber formData))
           then [(''idNumber'', ''ID number must contain only digits'')]
         else [])
      else []) @
     (if trim (phoneNumber formData) = [] then [(''phoneNumber'', ''Phone number is required'')]
      else
        let phoneDigits = js_replace ''+254'' [] (phoneNumber formData)
        in if \<not> phone_digits_ok phoneDigits
           then [(''phoneNumber'', ''Please enter 9 digits after +254 (starting with 1 or 7)'')]
           else []) @
     (if \<not> isLogin then
        (if trim (name formData) = [] then [(''name'', ''Name is required'')]
         else if length (trim (name formData)) < 2
           then [(''name'', ''Name must be at least 2 characters'')]
         else [])
      else []) @
     (if trim (password formData) = [] then [(''password'', ''Password is required'')]
      else if length (password formData) < 6
        then [(''password'', ''Password must be at least 6 characters'')]
      else []) @
     (if \<not> isLogin then
        (if trim (confirmPassword formData) = []
           then [(''confirmPassword'', ''Please confirm your password'')]
         else if password formData \<noteq> confirmPassword formData
           then [(''confirmPassword'', ''Passwords do not match'')]
         else [])
      else [])"

definition validateForm :: "bool \<Rightarrow> FormData \<Rightarrow> bool" where
  "validateForm isLogin formData = (validateForm_errors isLogin formData = [])"

text \<open>
  The number that \<open>handleRegister\<close> and \<open>handleLogin\<close> send to the store:
  \<^verbatim>\<open>const phoneDigits = formData.phoneNumber.replace('+254', '');\<close>
  \<^verbatim>\<open>const fullPhoneNumber = '+254' + phoneDigits;\<close>
\<close>

definition fullPhoneNumber :: "FormData \<Rightarrow> string" where
  "fullPhoneNumber formData =
     (let phoneDigits = js_replace ''+254'' [] (phoneNumber formData)
      in ''+254'' @ phoneDigits)"

text \<open>
  \<open>handleRegister\<close> runs on the register tab (\<open>isLogin\<close> is false). The environment says
  which of its three remote calls are answered and which id the store gives the new row.
  Only the \<open>data\<close> of the two existence checks is read; their \<open>error\<close> is dropped.
\<close>

record register_env =
  phone_check_ok :: bool
  id_check_ok :: bool
  insert_ok :: bool
  new_id :: string

datatype register_result =
    Register_invalid "(string \<times> string) list"
  | Conflict string
  | Register_failed
  | Registered users_row

definition handleRegister ::
    "register_env \<Rightarrow> FormData \<Rightarrow> store \<Rightarrow> register_result \<times> store" where
  "handleRegister env formData st =
     (if \<not> validateForm False formData
      then (Register_invalid (validateForm_errors False formData), st)
      else
        let existingUser = fst (single (phone_check_ok env)
              (filter (\<lambda>u. users_phone_number u = fullPhoneNumber formData) (users st)))
        in if existingUser \<noteq> None
           then (Conflict ''Phone number already registered. Please login instead.'', st)
           else
             let existingId = fst (single (id_check_ok env)
                   (filter (\<lambda>u. users_id_number u = trim (idNumber formData)) (users st)))
             in if existingId \<noteq> None
                then (Conflict ''ID Number already exists. Please use a different ID.'', st)
                else
                  (case insert_user (insert_ok env)
                          \<lparr>users_id = new_id env,
                           users_phone_number = fullPhoneNumber formData,
                           users_name = trim (name formData),
                           users_id_number = trim (idNumber formData),
                           users_password = password formData, users_is_admin = False\<rparr> st of
                     ((Some row, None), st') \<Rightarrow> (Registered row, st')
                   | (_, st') \<Rightarrow> (Register_failed, st')))"

section \<open>The leaderboard screen\<close>

text \<open>The five zone colours of \<open>zoneColors\<close>.\<close>

definition zoneColors_red :: string where
  "zoneColors_red = ''#EF4444''"

definition zoneColors_yellow :: string where
  "zoneColors_yellow = ''#F59E0B''"

definition zoneColors_orange :: string where
  "zoneColors_orange = ''#F97316''"

definition zoneColors_lightGreen :: string where
  "zoneColors_lightGreen = ''#10B981''"

definition zoneColors_darkGreen :: string where
  "zoneColors_darkGreen = ''#059669''"

text \<open>\<open>getZoneColor\<close>; a connections count is an integer.\<close>

definition getZoneColor :: "int \<Rightarrow> string" where
  "getZoneColor connections =
     (if connections < 5 then zoneColors_red
      else if connections \<le> 10 then zoneColors_yellow
      else if connections \<le> 15 then zoneColors_orange
      else if connections \<le> 20 then zoneColors_lightGreen
      else zoneColors_darkGreen)"

record LeaderboardItem =
  item_user_id :: string
  item_name :: string
  item_connections :: int
  item_rank :: nat

text \<open>
  \<^verbatim>\<open>
  const rankedData = (data || []).map((item: any, index: number) => ({
    user_id: item.user_id,
    name: item.users?.name || 'Unknown',
    connections: item.connections || 0,
    rank: index + 1,
  }));
  \<close>
\<close>

definition rankedData :: "leaderboard_row list option \<Rightarrow> LeaderboardItem list" where
  "rankedData data =
     map (\<lambda>(index, item).
            \<lparr>item_user_id = row_user_id item,
             item_name = (case row_users_name item of
                            None \<Rightarrow> ''Unknown''
                          | Some n \<Rightarrow> if n = [] then ''Unknown'' else n),
             item_connections = (case row_connections item of None \<Rightarrow> 0 | Some c \<Rightarrow> c),
             item_rank = index + 1\<rparr>)
         (enumerate 0 (case data of None \<Rightarrow> [] | Some rows \<Rightarrow> rows))"

text \<open>
  \<open>fetchLeaderboard\<close> reads the rows of the current month and replaces the displayed
  list; on an error it shows a notification and leaves the list as it was.
\<close>

datatype fetch_result = Fetch_error | Loaded

definition fetchLeaderboard ::
    "bool \<Rightarrow> utc_time \<Rightarrow> store \<Rightarrow> LeaderboardItem list \<Rightarrow> fetch_result \<times> LeaderboardItem list" where
  "fetchLeaderboard ok now st leaderboard =
     (case toISOString (UTC now) of
        None \<Rightarrow> (Fetch_error, leaderboard)
      | Some isoString \<Rightarrow>
          let currentMonth = take 7 isoString;
              (data, error) = select_rows ok (select_leaderboard st currentMonth)
          in if error \<noteq> None then (Fetch_error, leaderboard)
             else (Loaded, rankedData data))"

section \<open>The sales form\<close>

record ModalFormData =
  form_user_id :: string
  form_connections :: string
  form_date :: "js_date option"

definition modal_validateForm_errors :: "ModalFormData \<Rightarrow> (string \<times> string) list" where
  "modal_validateForm_errors formData =
     (if form_user_id formData = [] then [(''user_id'', ''Please select a sales agent'')]
      else []) @
     (if trim (form_connections formData) = []
        then [(''connections'', ''Connections are required'')]
      else
        let connections = parseInt (form_connections formData)
        in if isNaN connections \<or> negative connections
           then [(''connections'', ''Please enter a valid number (0 or greater)'')]
           else []) @
     (if form_date formData = None then [(''date'', ''Please select a date'')] else [])"

definition modal_validateForm :: "ModalFormData \<Rightarrow> bool" where
  "modal_validateForm formData = (modal_validateForm_errors formData = [])"

text \<open>
  \<open>handleSubmit\<close>. The environment says whether the read and the write are answered,
  whether the \<open>sales\<close> table references \<open>users\<close>, and gives the time stamp of the write.
  The stored count comes back in a JSON body and is a number like any other. Every
  exception thrown inside the \<open>try\<close> block ends in the same notification,
  \<open>Submit_failed\<close>. After a success the screen resets the form and reloads the
  leaderboard, which writes nothing.
\<close>

record submit_env =
  fetch_ok :: bool
  upsert_ok :: bool
  sales_references_users :: bool
  now_iso :: string

datatype submit_result =
    Submit_invalid "(string \<times> string) list"
  | Submit_failed
  | Submit_success

definition month_year_of :: "js_date \<Rightarrow> string option" where
  "month_year_of d = map_option (take 7) (toISOString d)"

definition handleSubmit ::
    "submit_env \<Rightarrow> ModalFormData \<Rightarrow> store \<Rightarrow> submit_result \<times> store" where
  "handleSubmit env formData st =
     (if \<not> modal_validateForm formData
      then (Submit_invalid (modal_validateForm_errors formData), st)
      else
        (case Option.bind (form_date formData) month_year_of of
           None \<Rightarrow> (Submit_failed, st)
         | Some currentMonth \<Rightarrow>
             let (existingData, fetchError) = single (fetch_ok env)
                   (map sales_connections
                      (filter (\<lambda>s. sales_user_id s = form_user_id formData \<and>
                                    sales_month_year s = currentMonth) (sales st)))
             in if fetchError \<noteq> None \<and> fetchError \<noteq> Some PGRST116
                then (Submit_failed, st)
                else
                  let currentConnections =
                        (case existingData of Some c \<Rightarrow> to_number c | None \<Rightarrow> Finite 0);
                      newConnections = parseInt (form_connections formData);
                      updatedConnections = num_add currentConnections newConnections;
                      (error, st') = upsert (upsert_ok env) (sales_references_users env)
                        \<lparr>body_user_id = form_user_id formData,
                         body_connections = json_number updatedConnections,
                         body_month_year = currentMonth,
                         body_updated_at = now_iso env\<rparr> st
                  in if error \<noteq> None then (Submit_failed, st')
                     else (Submit_success, st')))"

text \<open>Submissions one after the other, each on the store the one before left.\<close>

fun submit_all :: "(submit_env \<times> ModalFormData) list \<Rightarrow> store \<Rightarrow> store" where
  "submit_all [] st = st"
| "submit_all ((env, formData) # rest) st = submit_all rest (snd (handleSubmit env formData st))"

text \<open>
  What the ledger holds for a user and a month: the \<open>connections\<close> of the row with that
  key, and 0 when there is none.
\<close>

definition stored_rows :: "store \<Rightarrow> string \<Rightarrow> string \<Rightarrow> sales_row list" where
  "stored_rows st u m =
     filter (\<lambda>s. sales_user_id s = u \<and> sales_month_year s = m) (sales st)"

definition stored_connections :: "store \<Rightarrow> string \<Rightarrow> string \<Rightarrow> int" where
  "stored_connections st u m =
     (case stored_rows st u m of [] \<Rightarrow> 0 | r # _ \<Rightarrow> sales_connections r)"

text \<open>
  The delta a form submits: the integer written in its connections field. The total a
  submission computes for the month \<open>m\<close>: the stored count of the key, read as a number
  (0 unless exactly one row has the key), plus the parsed field.
\<close>

definition delta_connections :: "ModalFormData \<Rightarrow> int" where
  "delta_connections formData =
     (case parseInt_mathInt (form_connections formData) of None \<Rightarrow> 0 | Some n \<Rightarrow> n)"

definition updated_total :: "store \<Rightarrow> ModalFormData \<Rightarrow> string \<Rightarrow> number" where
  "updated_total st formData m =
     num_add
       (case stored_rows st (form_user_id formData) m of
          [r] \<Rightarrow> to_number (sales_connections r)
        | _ \<Rightarrow> Finite 0)
       (parseInt (form_connections formData))"

text \<open>The store takes the row of a submission: the reference to \<open>users\<close>, where enforced, holds.\<close>

definition store_accepts :: "submit_env \<Rightarrow> ModalFormData \<Rightarrow> store \<Rightarrow> bool" where
  "store_accepts env formData st =
     (upsert_ok env \<and>
      (sales_references_users env \<longrightarrow> form_user_id formData \<in> set (map users_id (users st))))"

section \<open>Example data\<close>

text \<open>Three agents and their sales rows, used to run the definitions.\<close>

definition example_users :: "users_row list" where
  "example_users =
     [\<lparr>users_id = ''a'', users_phone_number = ''+254712345678'', users_name = ''Amina'',
       users_id_number = ''12345678'', users_password = ''secret1'', users_is_admin = True\<rparr>,
      \<lparr>users_id = ''b'', users_phone_number = ''+254112345678'', users_name = ''Baraka'',
       users_id_number = ''23456789'', users_password = ''secret2'', users_is_admin = False\<rparr>,
      \<lparr>users_id = ''c'', users_phone_number = ''+254798765432'', users_name = ''Chege'',
       users_id_number = ''34567890'', users_password = ''secret3'', users_is_admin = False\<rparr>]"

definition example_store :: store where
  "example_store =
     \<lparr>users = example_users,
      sales =
        [\<lparr>sales_user_id = ''c'', sales_connections = 10, sales_month_year = ''2025-03'',
          sales_updated_at = ''2025-03-02T08:00:00.000Z''\<rparr>,
         \<lparr>sales_user_id = ''a'', sales_connections = 30, sales_month_year = ''2025-03'',
          sales_updated_at = ''2025-03-03T08:00:00.000Z''\<rparr>,
         \<lparr>sales_user_id = ''b'', sales_connections = 30, sales_month_year = ''2025-03'',
          sales_updated_at = ''2025-03-04T08:00:00.000Z''\<rparr>,
         \<lparr>sales_user_id = ''a'', sales_connections = 99, sales_month_year = ''2025-02'',
          sales_updated_at = ''2025-02-20T08:00:00.000Z''\<rparr>]\<rparr>"

definition example_time :: "int \<Rightarrow> nat \<Rightarrow> nat \<Rightarrow> utc_time" where
  "example_time y m d =
     \<lparr>utc_year = y, utc_month = m, utc_day = d, utc_hours = 9, utc_minutes = 30,
      utc_seconds = 0, utc_milliseconds = 0\<rparr>"

definition example_env :: submit_env where
  "example_env =
     \<lparr>fetch_ok = True, upsert_ok = True, sales_references_users = True,
      now_iso = ''2025-03-09T09:30:00.000Z''\<rparr>"

definition example_env_no_reference :: submit_env where
  "example_env_no_reference =
     \<lparr>fetch_ok = True, upsert_ok = True, sales_references_users = False,
      now_iso = ''2025-03-09T09:30:00.000Z''\<rparr>"

definition example_form :: "string \<Rightarrow> string \<Rightarrow> utc_time \<Rightarrow> ModalFormData" where
  "example_form u c t = \<lparr>form_user_id = u, form_connections = c, form_date = Some (UTC t)\<rparr>"

definition example_env_down :: submit_env where
  "example_env_down =
     \<lparr>fetch_ok = True, upsert_ok = False, sales_references_users = True,
      now_iso = ''2025-03-09T09:30:00.000Z''\<rparr>"

definition example_register_form :: "string \<Rightarrow> string \<Rightarrow> string \<Rightarrow> FormData" where
  "example_register_form idn phone pw =
     \<lparr>idNumber = idn, phoneNumber = phone, name = ''Dalila'', password = pw,
      confirmPassword = pw\<rparr>"

definition example_register_env :: "bool \<Rightarrow> register_env" where
  "example_register_env checked =
     \<lparr>phone_check_ok = checked, id_check_ok = True, insert_ok = True, new_id = ''d''\<rparr>"

section \<open>Properties of the phone field\<close>

lemma formatPhoneNumber_shape:
  "\<exists>ds. formatPhoneNumber s = ''+254'' @ ds \<and> length ds \<le> 9 \<and> list_all is_digit ds"
proof (cases "startsWith s ''+254''")
  case True
  let ?ds = "take 9 (filter is_digit (drop 4 s))"
  have "formatPhoneNumber s = ''+254'' @ ?ds"
    using True by (simp add: formatPhoneNumber_def)
  moreover have "length ?ds \<le> 9" by simp
  moreover have "list_all is_digit ?ds"
    by (auto simp: list_all_iff dest: in_set_takeD)
  ultimately show ?thesis by blast
next
  case False
  then have "formatPhoneNumber s = ''+254'' @ []"
    by (simp add: formatPhoneNumber_def)
  then show ?thesis by force
qed

lemma formatPhoneNumber_fixed:
  assumes "length ds \<le> 9" and "list_all is_digit ds"
  shows "formatPhoneNumber (''+254'' @ ds) = ''+254'' @ ds"
proof -
  have "filter is_digit ds = ds"
    using assms(2) by (simp add: list_all_iff)
  then show ?thesis
    using assms(1) by (simp add: formatPhoneNumber_def startsWith_def)
qed

text \<open>
  C10. Formatting the phone field is idempotent, and what it returns is always the literal
  prefix \<open>+254\<close> followed by at most nine characters, every one of them a digit.
\<close>

theorem formatPhoneNumber_idempotent_prefix:
  "formatPhoneNumber (formatPhoneNumber s) = formatPhoneNumber s \<and>
   (\<exists>ds. formatPhoneNumber s = ''+254'' @ ds \<and> length ds \<le> 9 \<and> list_all is_digit ds)"
proof -
  obtain ds where ds: "formatPhoneNumber s = ''+254'' @ ds" "length ds \<le> 9" "list_all is_digit ds"
    using formatPhoneNumber_shape by blast
  then have "formatPhoneNumber (formatPhoneNumber s) = formatPhoneNumber s"
    by (simp only: formatPhoneNumber_fixed)
  with ds show ?thesis by blast
qed

theorem formatPhoneNumber_idempotent_prefix_witness:
  "formatPhoneNumber (formatPhoneNumber ''+2547a12-345 6789012'') = ''+254712345678'' \<and>
   formatPhoneNumber ''+2547a12-345 6789012'' = ''+254712345678''"
proof -
  have e: "formatPhoneNumber ''+2547a12-345 6789012'' = ''+254712345678''"
    by (simp add: formatPhoneNumber_def startsWith_def is_digit_def)
  from formatPhoneNumber_idempotent_prefix [of "''+2547a12-345 6789012''"] e
  show ?thesis by simp
qed

section \<open>Zones\<close>

lemma zone_distinct:
  "distinct [zoneColors_red, zoneColors_yellow, zoneColors_orange, zoneColors_lightGreen, zoneColors_darkGreen]"
  by (simp add: zoneColors_red_def zoneColors_yellow_def zoneColors_orange_def
      zoneColors_lightGreen_def zoneColors_darkGreen_def)

text \<open>
  C3. The zone of a connections count is a function of the count alone, with fixed
  inclusive thresholds: below 5 red, 5 to 10 yellow, 11 to 15 orange, 16 to 20 light green,
  above 20 dark green; so 4 is red, 5 and 10 yellow, 11 and 15 orange, 16 and 20 light
  green, 21 dark green. The five colours are pairwise different.
\<close>

theorem getZoneColor_thresholds:
  "(connections < 5 \<longrightarrow> getZoneColor connections = zoneColors_red) \<and>
   (5 \<le> connections \<and> connections \<le> 10 \<longrightarrow> getZoneColor connections = zoneColors_yellow) \<and>
   (11 \<le> connections \<and> connections \<le> 15 \<longrightarrow> getZoneColor connections = zoneColors_orange) \<and>
   (16 \<le> connections \<and> connections \<le> 20 \<longrightarrow> getZoneColor connections = zoneColors_lightGreen) \<and>
   (20 < connections \<longrightarrow> getZoneColor connections = zoneColors_darkGreen) \<and>
   getZoneColor 4 = zoneColors_red \<and> getZoneColor 5 = zoneColors_yellow \<and>
   getZoneColor 10 = zoneColors_yellow \<and> getZoneColor 11 = zoneColors_orange \<and>
   getZoneColor 15 = zoneColors_orange \<and> getZoneColor 16 = zoneColors_lightGreen \<and>
   getZoneColor 20 = zoneColors_lightGreen \<and> getZoneColor 21 = zoneColors_darkGreen \<and>
   distinct [zoneColors_red, zoneColors_yellow, zoneColors_orange, zoneColors_lightGreen,
             zoneColors_darkGreen]"
  using zone_distinct by (simp add: getZoneColor_def)

theorem getZoneColor_thresholds_witness:
  "getZoneColor 3 = ''#EF4444'' \<and> getZoneColor 7 = ''#F59E0B'' \<and> getZoneColor 12 = ''#F97316'' \<and>
   getZoneColor 18 = ''#10B981'' \<and> getZoneColor 25 = ''#059669''"
  using getZoneColor_thresholds [of 3] getZoneColor_thresholds [of 7]
    getZoneColor_thresholds [of 12] getZoneColor_thresholds [of 18]
    getZoneColor_thresholds [of 25]
  by (simp add: zoneColors_red_def zoneColors_yellow_def zoneColors_orange_def
      zoneColors_lightGreen_def zoneColors_darkGreen_def)

section \<open>Month keys\<close>

lemma month_year_of_UTC:
  "month_year_of (UTC t) =
     Some (take 7 (iso_year (utc_year t) @ ''-'' @ padded 2 (utc_month t) @ ''-'' @
                padded 2 (utc_day t) @ ''T'' @ padded 2 (utc_hours t) @ '':'' @
                padded 2 (utc_minutes t) @ '':'' @ padded 2 (utc_seconds t) @ ''.'' @
                padded 3 (utc_milliseconds t) @ ''Z''))"
  by (simp add: month_year_of_def toISOString_def)

lemma length_padded: "length (padded w k) = w"
  by (simp add: padded_def)

lemma length_iso_year:
  "length (iso_year y) = (if 0 \<le> y \<and> y \<le> 9999 then 4 else 7)"
  by (simp add: iso_year_def length_padded)

lemma month_year_of_four_digit_year:
  assumes "0 \<le> utc_year t" and "utc_year t \<le> 9999"
  shows "month_year_of (UTC t) = Some (padded 4 (nat (utc_year t)) @ ''-'' @ padded 2 (utc_month t))"
proof -
  have "iso_year (utc_year t) = padded 4 (nat (utc_year t))"
    using assms by (simp add: iso_year_def)
  then show ?thesis
    by (simp add: month_year_of_UTC length_padded)
qed

lemma month_year_of_expanded_year:
  assumes "\<not> (0 \<le> utc_year t \<and> utc_year t \<le> 9999)"
  shows "month_year_of (UTC t) = Some (iso_year (utc_year t))"
proof -
  have "length (iso_year (utc_year t)) = 7"
    using assms by (simp add: length_iso_year)
  then show ?thesis
    by (simp add: month_year_of_UTC)
qed

lemma month_year_of_same_month:
  assumes "utc_year t = utc_year t'" and "utc_month t = utc_month t'"
  shows "month_year_of (UTC t) = month_year_of (UTC t')"
proof (cases "0 \<le> utc_year t \<and> utc_year t \<le> 9999")
  case True
  then show ?thesis
    using assms by (simp add: month_year_of_four_digit_year)
next
  case False
  then show ?thesis
    using assms by (simp add: month_year_of_expanded_year)
qed

lemma month_2025_04: "month_year_of (UTC (example_time 2025 4 d)) = Some ''2025-04''"
  by (simp add: month_year_of_four_digit_year example_time_def padded_def digit_char_def upt_rec)

section \<open>Tables with a unique key\<close>

lemma filter_key_distinct:
  "distinct (map f xs) \<Longrightarrow> filter (\<lambda>x. f x = k) xs = [] \<or> (\<exists>r. filter (\<lambda>x. f x = k) xs = [r])"
proof (induction xs)
  case Nil
  then show ?case by simp
next
  case (Cons x xs)
  show ?case
  proof (cases "f x = k")
    case True
    have "f x \<notin> f ` set xs"
      using Cons.prems by simp
    then have "\<forall>y \<in> set xs. f y \<noteq> k"
      using True by (metis imageI)
    then have "filter (\<lambda>x. f x = k) xs = []"
      by (simp add: filter_empty_conv)
    then show ?thesis using True by simp
  next
    case False
    then show ?thesis using Cons by simp
  qed
qed

lemma filter_key_present:
  assumes "distinct (map f xs)" and "k \<in> set (map f xs)"
  shows "\<exists>r. filter (\<lambda>x. f x = k) xs = [r]"
proof -
  have "filter (\<lambda>x. f x = k) xs \<noteq> []"
    using assms(2) by (auto simp: filter_empty_conv)
  then show ?thesis
    using filter_key_distinct [OF assms(1), of k] by simp
qed

section \<open>The leaderboard\<close>

lemma map_snd_enumerate_fun:
  "map (\<lambda>p. f (snd p)) (enumerate n xs) = map f xs"
  by (induction xs arbitrary: n) simp_all

lemma map_fst_enumerate_fun:
  "map (\<lambda>p. g (fst p)) (enumerate n xs) = map g [n..<n + length xs]"
proof -
  have "map (\<lambda>p. g (fst p)) (enumerate n xs) = map g (map fst (enumerate n xs))"
    by (simp only: map_map comp_def)
  then show ?thesis
    by (simp only: map_fst_enumerate)
qed

lemma rankedData_ranks:
  "map item_rank (rankedData (Some rows)) = [1..<Suc (length rows)]"
proof -
  have "map item_rank (rankedData (Some rows)) = map (\<lambda>p. Suc (fst p)) (enumerate 0 rows)"
    by (simp add: rankedData_def case_prod_beta)
  also have "\<dots> = map Suc [0..<0 + length rows]"
    by (rule map_fst_enumerate_fun)
  also have "\<dots> = [1..<Suc (length rows)]"
    by (simp add: map_Suc_upt del: upt_Suc)
  finally show ?thesis .
qed

lemma rankedData_user_ids:
  "map item_user_id (rankedData (Some rows)) = map row_user_id rows"
proof -
  have "map item_user_id (rankedData (Some rows)) = map (\<lambda>p. row_user_id (snd p)) (enumerate 0 rows)"
    by (simp add: rankedData_def case_prod_beta)
  also have "\<dots> = map row_user_id rows"
    by (rule map_snd_enumerate_fun)
  finally show ?thesis .
qed

lemma rankedData_connections:
  "map item_connections (rankedData (Some rows)) =
   map (\<lambda>r. case row_connections r of None \<Rightarrow> 0 | Some c \<Rightarrow> c) rows"
proof -
  have "map item_connections (rankedData (Some rows)) =
        map (\<lambda>p. case row_connections (snd p) of None \<Rightarrow> 0 | Some c \<Rightarrow> c) (enumerate 0 rows)"
    by (simp add: rankedData_def case_prod_beta)
  also have "\<dots> = map (\<lambda>r. case row_connections r of None \<Rightarrow> 0 | Some c \<Rightarrow> c) rows"
    by (rule map_snd_enumerate_fun)
  finally show ?thesis .
qed

lemma length_rankedData: "length (rankedData (Some rows)) = length rows"
  by (simp add: rankedData_def)

lemma join_connections:
  "map (\<lambda>r. case row_connections r of None \<Rightarrow> 0 | Some c \<Rightarrow> c) (concat (map (join_user us) xs)) =
   map sales_connections (filter (\<lambda>s. find (\<lambda>u. users_id u = sales_user_id s) us \<noteq> None) xs)"
  by (induction xs) (auto simp: join_user_def split: option.splits)

lemma select_leaderboard_descending:
  "sorted_wrt (\<lambda>a b. b \<le> a)
     (map (\<lambda>r. case row_connections r of None \<Rightarrow> 0 | Some c \<Rightarrow> c) (select_leaderboard st month))"
proof -
  let ?xs = "sort_key (\<lambda>s. - sales_connections s) (filter (\<lambda>s. sales_month_year s = month) (sales st))"
  have "sorted (map (\<lambda>s. - sales_connections s) ?xs)"
    by (rule sorted_sort_key)
  then have "sorted_wrt (\<lambda>x y. sales_connections y \<le> sales_connections x) ?xs"
    by (simp add: sorted_wrt_map)
  then have "sorted_wrt (\<lambda>x y. sales_connections y \<le> sales_connections x)
               (filter (\<lambda>s. find (\<lambda>u. users_id u = sales_user_id s) (users st) \<noteq> None) ?xs)"
    by (rule sorted_wrt_filter)
  then show ?thesis
    by (simp add: select_leaderboard_def join_connections sorted_wrt_map)
qed

lemma fetchLeaderboard_ok:
  "\<exists>m. month_year_of (UTC now) = Some m \<and>
       fetchLeaderboard True now st old = (Loaded, rankedData (Some (select_leaderboard st m)))"
  by (simp add: month_year_of_def toISOString_def fetchLeaderboard_def select_rows_def)

lemma fetchLeaderboard_failed:
  "fetchLeaderboard False now st old = (Fetch_error, old)"
  by (simp add: toISOString_def fetchLeaderboard_def select_rows_def)

lemma rankedData_nth:
  assumes "i < length rows"
  shows "item_user_id (rankedData (Some rows) ! i) = row_user_id (rows ! i)"
    and "item_connections (rankedData (Some rows) ! i) =
           (case row_connections (rows ! i) of None \<Rightarrow> 0 | Some c \<Rightarrow> c)"
    and "item_rank (rankedData (Some rows) ! i) = i + 1"
  using assms by (simp_all add: rankedData_def nth_enumerate_eq)

lemma join_pairs:
  "map (\<lambda>r. (row_user_id r, case row_connections r of None \<Rightarrow> 0 | Some c \<Rightarrow> c))
     (concat (map (join_user us) xs)) =
   map (\<lambda>s. (sales_user_id s, sales_connections s))
     (filter (\<lambda>s. find (\<lambda>u. users_id u = sales_user_id s) us \<noteq> None) xs)"
  by (induction xs) (auto simp: join_user_def split: option.splits)

lemma rankedData_pairs:
  "map (\<lambda>i. (item_user_id i, item_connections i)) (rankedData (Some rows)) =
   map (\<lambda>r. (row_user_id r, case row_connections r of None \<Rightarrow> 0 | Some c \<Rightarrow> c)) rows"
proof -
  have "map (\<lambda>i. (item_user_id i, item_connections i)) (rankedData (Some rows)) =
        map (\<lambda>p. (row_user_id (snd p), case row_connections (snd p) of None \<Rightarrow> 0 | Some c \<Rightarrow> c))
          (enumerate 0 rows)"
    by (simp add: rankedData_def case_prod_beta)
  also have "\<dots> = map (\<lambda>r. (row_user_id r, case row_connections r of None \<Rightarrow> 0 | Some c \<Rightarrow> c)) rows"
    by (rule map_snd_enumerate_fun)
  finally show ?thesis .
qed

lemma leaderboard_pairs:
  "map (\<lambda>i. (item_user_id i, item_connections i)) (rankedData (Some (select_leaderboard st m))) =
   map (\<lambda>s. (sales_user_id s, sales_connections s))
     (filter (\<lambda>s. find (\<lambda>u. users_id u = sales_user_id s) (users st) \<noteq> None)
        (sort_key (\<lambda>s. - sales_connections s)
           (filter (\<lambda>s. sales_month_year s = m) (sales st))))"
  by (simp only: rankedData_pairs select_leaderboard_def join_pairs)

lemma leaderboard_pairs_set:
  "set (map (\<lambda>i. (item_user_id i, item_connections i))
          (rankedData (Some (select_leaderboard st m)))) =
   (\<lambda>s. (sales_user_id s, sales_connections s)) `
     {s \<in> set (sales st). sales_month_year s = m \<and>
        find (\<lambda>u. users_id u = sales_user_id s) (users st) \<noteq> None}"
  by (simp only: leaderboard_pairs) auto

text \<open>
  C2. When the read is answered, the leaderboard is made of the rows fetched for the
  current month: its entries are, in order, the sales rows of that month whose user exists,
  in descending order of connections, one entry for each. The rank of an entry is its
  position plus one, whatever the counts: ranks are 1, 2, 3, ... with no gap and no
  repetition, also among equal counts, which keep the order in which they were fetched.
  For connections 30, 30, 10 the ranks are 1, 2, 3.
\<close>

theorem leaderboard_ranks_dense:
  "(\<exists>m. month_year_of (UTC now) = Some m \<and>
      fetchLeaderboard True now st old = (Loaded, rankedData (Some (select_leaderboard st m))) \<and>
      map (\<lambda>i. (item_user_id i, item_connections i)) (snd (fetchLeaderboard True now st old)) =
        map (\<lambda>s. (sales_user_id s, sales_connections s))
          (filter (\<lambda>s. find (\<lambda>u. users_id u = sales_user_id s) (users st) \<noteq> None)
             (sort_key (\<lambda>s. - sales_connections s)
                (filter (\<lambda>s. sales_month_year s = m) (sales st)))) \<and>
      set (map (\<lambda>i. (item_user_id i, item_connections i)) (snd (fetchLeaderboard True now st old))) =
        (\<lambda>s. (sales_user_id s, sales_connections s)) `
          {s \<in> set (sales st). sales_month_year s = m \<and>
             find (\<lambda>u. users_id u = sales_user_id s) (users st) \<noteq> None}) \<and>
   sorted_wrt (\<lambda>a b. b \<le> a) (map item_connections (snd (fetchLeaderboard True now st old))) \<and>
   map item_rank (snd (fetchLeaderboard True now st old)) =
     [1..<Suc (length (snd (fetchLeaderboard True now st old)))] \<and>
   length (rankedData (Some rows)) = length rows \<and>
   (\<forall>i < length rows.
      item_user_id (rankedData (Some rows) ! i) = row_user_id (rows ! i) \<and>
      item_connections (rankedData (Some rows) ! i) =
        (case row_connections (rows ! i) of None \<Rightarrow> 0 | Some c \<Rightarrow> c) \<and>
      item_rank (rankedData (Some rows) ! i) = i + 1) \<and>
   map item_rank (rankedData (Some rows)) = [1..<Suc (length rows)] \<and>
   map item_user_id (rankedData (Some rows)) = map row_user_id rows \<and>
   (map row_connections rows = [Some 30, Some 30, Some 10] \<longrightarrow>
      map item_rank (rankedData (Some rows)) = [1, 2, 3] \<and>
      map item_connections (rankedData (Some rows)) = [30, 30, 10])"
proof -
  obtain m where k: "month_year_of (UTC now) = Some m"
    and m: "fetchLeaderboard True now st old = (Loaded, rankedData (Some (select_leaderboard st m)))"
    using fetchLeaderboard_ok by blast
  have tie: "\<exists>m. month_year_of (UTC now) = Some m \<and>
      fetchLeaderboard True now st old = (Loaded, rankedData (Some (select_leaderboard st m))) \<and>
      map (\<lambda>i. (item_user_id i, item_connections i)) (snd (fetchLeaderboard True now st old)) =
        map (\<lambda>s. (sales_user_id s, sales_connections s))
          (filter (\<lambda>s. find (\<lambda>u. users_id u = sales_user_id s) (users st) \<noteq> None)
             (sort_key (\<lambda>s. - sales_connections s)
                (filter (\<lambda>s. sales_month_year s = m) (sales st)))) \<and>
      set (map (\<lambda>i. (item_user_id i, item_connections i)) (snd (fetchLeaderboard True now st old))) =
        (\<lambda>s. (sales_user_id s, sales_connections s)) `
          {s \<in> set (sales st). sales_month_year s = m \<and>
             find (\<lambda>u. users_id u = sales_user_id s) (users st) \<noteq> None}"
    using k m leaderboard_pairs [of st m] leaderboard_pairs_set [of st m]
    by (intro exI [of _ m]) (simp only: snd_conv simp_thms)
  have sorted: "sorted_wrt (\<lambda>a b. b \<le> a) (map item_connections (snd (fetchLeaderboard True now st old)))"
    by (simp only: m snd_conv rankedData_connections select_leaderboard_descending)
  have ranks: "map item_rank (snd (fetchLeaderboard True now st old)) =
     [1..<Suc (length (snd (fetchLeaderboard True now st old)))]"
    by (simp only: m snd_conv rankedData_ranks length_rankedData)
  have pointwise: "\<forall>i < length rows.
      item_user_id (rankedData (Some rows) ! i) = row_user_id (rows ! i) \<and>
      item_connections (rankedData (Some rows) ! i) =
        (case row_connections (rows ! i) of None \<Rightarrow> 0 | Some c \<Rightarrow> c) \<and>
      item_rank (rankedData (Some rows) ! i) = i + 1"
    using rankedData_nth by blast
  have example: "map item_rank (rankedData (Some rows)) = [1, 2, 3] \<and>
      map item_connections (rankedData (Some rows)) = [30, 30, 10]"
    if h: "map row_connections rows = [Some 30, Some 30, Some 10]"
  proof -
    have "length (map row_connections rows) = 3"
      by (simp add: h)
    then have len: "length rows = 3" by simp
    have "map item_rank (rankedData (Some rows)) = [1..<Suc 3]"
      by (simp only: rankedData_ranks len)
    moreover have "[1..<Suc 3] = [1, 2, 3]"
      by (simp add: upt_rec)
    moreover have "map item_connections (rankedData (Some rows)) =
        map (\<lambda>c. case c of None \<Rightarrow> 0 | Some c \<Rightarrow> c) (map row_connections rows)"
      by (simp add: rankedData_connections)
    ultimately show ?thesis
      by (simp add: h)
  qed
  show ?thesis
    using tie sorted ranks pointwise example rankedData_ranks rankedData_user_ids
      length_rankedData
    by blast
qed

lemma example_leaderboard:
  "fetchLeaderboard True (example_time 2025 3 9) example_store [] =
     (Loaded,
      [\<lparr>item_user_id = ''a'', item_name = ''Amina'', item_connections = 30, item_rank = 1\<rparr>,
       \<lparr>item_user_id = ''b'', item_name = ''Baraka'', item_connections = 30, item_rank = 2\<rparr>,
       \<lparr>item_user_id = ''c'', item_name = ''Chege'', item_connections = 10, item_rank = 3\<rparr>])"
proof -
  have "toISOString (UTC (example_time 2025 3 9)) = Some ''2025-03-09T09:30:00.000Z''"
    by (simp add: toISOString_def example_time_def iso_year_def padded_def digit_char_def upt_rec)
  then show ?thesis
    by (simp add: fetchLeaderboard_def select_rows_def select_leaderboard_def rankedData_def
        example_store_def example_users_def join_user_def)
qed

theorem leaderboard_ranks_dense_witness:
  "fetchLeaderboard True (example_time 2025 3 9) example_store [] =
     (Loaded,
      [\<lparr>item_user_id = ''a'', item_name = ''Amina'', item_connections = 30, item_rank = 1\<rparr>,
       \<lparr>item_user_id = ''b'', item_name = ''Baraka'', item_connections = 30, item_rank = 2\<rparr>,
       \<lparr>item_user_id = ''c'', item_name = ''Chege'', item_connections = 10, item_rank = 3\<rparr>]) \<and>
   map row_connections (select_leaderboard example_store ''2025-03'') = [Some 30, Some 30, Some 10] \<and>
   map item_rank (rankedData (Some (select_leaderboard example_store ''2025-03''))) = [1, 2, 3] \<and>
   map item_rank (snd (fetchLeaderboard True (example_time 2025 3 9) example_store [])) = [1, 2, 3] \<and>
   item_rank (rankedData (Some (select_leaderboard example_store ''2025-03'')) ! 1) = 2"
proof -
  have h: "map row_connections (select_leaderboard example_store ''2025-03'') = [Some 30, Some 30, Some 10]"
    by (simp add: select_leaderboard_def example_store_def example_users_def join_user_def)
  then have "length (map row_connections (select_leaderboard example_store ''2025-03'')) = 3"
    by simp
  then have l: "1 < length (select_leaderboard example_store ''2025-03'')"
    by simp
  note t = leaderboard_ranks_dense [of "example_time 2025 3 9" example_store "[]"
      "select_leaderboard example_store ''2025-03''"]
  from t h have r: "map item_rank (rankedData (Some (select_leaderboard example_store ''2025-03''))) = [1, 2, 3]"
    by blast
  from t l have p: "item_rank (rankedData (Some (select_leaderboard example_store ''2025-03'')) ! 1) = 1 + 1"
    by blast
  from t have "map item_rank (snd (fetchLeaderboard True (example_time 2025 3 9) example_store [])) =
     [1..<Suc (length (snd (fetchLeaderboard True (example_time 2025 3 9) example_store [])))]"
    by blast
  then have f: "map item_rank (snd (fetchLeaderboard True (example_time 2025 3 9) example_store [])) = [1, 2, 3]"
    by (simp add: example_leaderboard)
  from h r p f example_leaderboard show ?thesis by simp
qed

text \<open>
  C7. When the store answers and holds no sales row for the month, the leaderboard is the
  empty list and the outcome is \<open>Loaded\<close>, not an error; the same holds for an answer whose
  data is empty or missing.
\<close>

theorem fetchLeaderboard_empty:
  "rankedData None = [] \<and> rankedData (Some []) = [] \<and>
   (month_year_of (UTC now) = Some m \<and> filter (\<lambda>s. sales_month_year s = m) (sales st) = [] \<longrightarrow>
      fetchLeaderboard True now st old = (Loaded, []))"
proof -
  have "fetchLeaderboard True now st old = (Loaded, [])"
    if "month_year_of (UTC now) = Some m" and "filter (\<lambda>s. sales_month_year s = m) (sales st) = []"
  proof -
    have "select_leaderboard st m = []"
      using that(2) by (simp add: select_leaderboard_def)
    moreover obtain m' where "month_year_of (UTC now) = Some m'"
      "fetchLeaderboard True now st old = (Loaded, rankedData (Some (select_leaderboard st m')))"
      using fetchLeaderboard_ok by blast
    ultimately show ?thesis
      using that(1) by (simp add: rankedData_def)
  qed
  then show ?thesis
    by (simp add: rankedData_def)
qed

theorem fetchLeaderboard_empty_witness:
  "month_year_of (UTC (example_time 2025 4 1)) = Some ''2025-04'' \<and>
   filter (\<lambda>s. sales_month_year s = ''2025-04'') (sales example_store) = [] \<and>
   fetchLeaderboard True (example_time 2025 4 1) example_store
     [\<lparr>item_user_id = ''a'', item_name = ''Amina'', item_connections = 30, item_rank = 1\<rparr>] =
     (Loaded, [])"
proof -
  have m: "month_year_of (UTC (example_time 2025 4 1)) = Some ''2025-04''"
    by (simp add: month_year_of_def toISOString_def example_time_def iso_year_def padded_def
        digit_char_def upt_rec)
  have e: "filter (\<lambda>s. sales_month_year s = ''2025-04'') (sales example_store) = []"
    by (simp add: example_store_def)
  from fetchLeaderboard_empty [of "example_time 2025 4 1" "''2025-04''" example_store
      "[\<lparr>item_user_id = ''a'', item_name = ''Amina'', item_connections = 30, item_rank = 1\<rparr>]"] m e
  show ?thesis by simp
qed

section \<open>Numbers up to \<open>2^53\<close>\<close>

lemma ulp_small: "n < 2 ^ 53 \<Longrightarrow> ulp n = 1"
  by (subst ulp.simps) simp

lemma ulp_large: "\<not> n < 2 ^ 53 \<Longrightarrow> ulp n = 2 * ulp (n div 2)"
  by (subst ulp.simps) simp

lemma ulp_le: "0 < n \<Longrightarrow> ulp n \<le> n"
proof (induction n rule: ulp.induct)
  case (1 n)
  show ?case
  proof (cases "n < 2 ^ 53")
    case True
    then show ?thesis using "1.prems" by (simp add: ulp_small)
  next
    case False
    then have "0 < n div 2" by simp
    then have "ulp (n div 2) \<le> n div 2"
      using "1.IH" False by simp
    then show ?thesis
      using False by (simp add: ulp_large)
  qed
qed

lemma ulp_pos: "0 < ulp n"
proof (induction n rule: ulp.induct)
  case (1 n)
  then show ?case
    by (cases "n < 2 ^ 53") (simp_all add: ulp_small ulp_large)
qed

lemma round_to_double_small: "n < 2 ^ 53 \<Longrightarrow> round_to_double n = n"
  by (simp add: round_to_double_def ulp_small)

lemma ulp_2_53: "ulp (2 ^ 53) = 2"
proof -
  have "ulp (2 ^ 53) = 2 * ulp (2 ^ 53 div 2)"
    by (rule ulp_large) simp
  also have "(2::nat) ^ 53 div 2 = 2 ^ 52" by simp
  also have "ulp (2 ^ 52) = 1" by (rule ulp_small) simp
  finally show ?thesis by simp
qed

lemma round_to_double_2_53: "round_to_double (2 ^ 53) = 2 ^ 53"
  by (simp only: round_to_double_def ulp_2_53 Let_def) simp

lemma round_to_double_exact: "n \<le> 2 ^ 53 \<Longrightarrow> round_to_double n = n"
  using round_to_double_small [of n] round_to_double_2_53
  by (cases "n = 2 ^ 53") simp_all

lemma round_to_double_pos: "0 < n \<Longrightarrow> 0 < round_to_double n"
proof -
  assume n: "0 < n"
  have "0 < n div ulp n"
    using ulp_le [OF n] ulp_pos [of n] by (simp add: div_greater_zero_iff)
  then show ?thesis
    using ulp_pos [of n] by (simp add: round_to_double_def Let_def)
qed

lemma to_number_exact: "\<bar>n\<bar> \<le> 2 ^ 53 \<Longrightarrow> to_number n = Finite n"
proof -
  assume a: "\<bar>n\<bar> \<le> 2 ^ 53"
  then have "nat \<bar>n\<bar> \<le> 2 ^ 53"
    by (simp add: nat_le_iff)
  then have r: "round_to_double (nat \<bar>n\<bar>) = nat \<bar>n\<bar>"
    by (rule round_to_double_exact)
  have "nat \<bar>n\<bar> < 2 ^ 1024"
    using \<open>nat \<bar>n\<bar> \<le> 2 ^ 53\<close> by (rule le_less_trans) simp
  then show ?thesis
    by (simp add: to_number_def r Let_def)
qed

lemma to_number_negative: "negative (to_number n) \<longleftrightarrow> n < 0"
proof (cases "n < 0")
  case True
  then have "0 < round_to_double (nat \<bar>n\<bar>)"
    by (intro round_to_double_pos) simp
  then show ?thesis
    using True by (simp add: to_number_def negative_def Let_def)
next
  case False
  then show ?thesis
    by (simp add: to_number_def negative_def Let_def)
qed

lemma to_number_not_NaN: "to_number n \<noteq> NaN"
  by (simp add: to_number_def Let_def)

lemma parseInt_exact:
  "parseInt_mathInt s = Some v \<Longrightarrow> \<bar>v\<bar> \<le> 2 ^ 53 \<Longrightarrow> parseInt s = Finite v"
  by (simp add: parseInt_def to_number_exact)

section \<open>The sales ledger\<close>

lemma modal_validateForm_iff:
  "modal_validateForm fd \<longleftrightarrow>
     form_user_id fd \<noteq> [] \<and> trim (form_connections fd) \<noteq> [] \<and>
     (\<exists>v. parseInt_mathInt (form_connections fd) = Some v \<and> 0 \<le> v) \<and> form_date fd \<noteq> None"
  by (auto simp: modal_validateForm_def modal_validateForm_errors_def parseInt_def isNaN_def
      to_number_negative to_number_not_NaN Let_def split: option.splits)

lemma delta_connections_nonneg:
  "modal_validateForm fd \<Longrightarrow> 0 \<le> delta_connections fd"
  by (auto simp: modal_validateForm_iff delta_connections_def)

lemma stored_rows_key:
  "stored_rows st u m = filter (\<lambda>s. sales_key s = (u, m)) (sales st)"
  by (simp add: stored_rows_def sales_key_def)

lemma stored_rows_distinct:
  assumes "distinct (map sales_key (sales st))"
  shows "stored_rows st u m = [] \<or> (\<exists>r. stored_rows st u m = [r])"
  using filter_key_distinct [OF assms] by (simp add: stored_rows_key)

lemma filter_upsert_row_same:
  "distinct (map sales_key xs) \<Longrightarrow>
   filter (\<lambda>s. sales_key s = sales_key r) (upsert_row r xs) = [r]"
proof (induction xs)
  case Nil
  then show ?case by simp
next
  case (Cons x xs)
  show ?case
  proof (cases "sales_key x = sales_key r")
    case True
    have "sales_key x \<notin> sales_key ` set xs"
      using Cons.prems by simp
    then have "\<forall>y \<in> set xs. sales_key y \<noteq> sales_key r"
      using True by (metis imageI)
    then have "filter (\<lambda>s. sales_key s = sales_key r) xs = []"
      by (simp add: filter_empty_conv)
    then show ?thesis using True by simp
  next
    case False
    then show ?thesis using Cons by simp
  qed
qed

lemma filter_upsert_row_other:
  "k \<noteq> sales_key r \<Longrightarrow>
   filter (\<lambda>s. sales_key s = k) (upsert_row r xs) = filter (\<lambda>s. sales_key s = k) xs"
  by (induction xs) auto

lemma set_map_key_upsert_row:
  "set (map sales_key (upsert_row r xs)) = insert (sales_key r) (set (map sales_key xs))"
  by (induction xs) auto

lemma distinct_upsert_row:
  "distinct (map sales_key xs) \<Longrightarrow> distinct (map sales_key (upsert_row r xs))"
proof (induction xs)
  case Nil
  then show ?case by simp
next
  case (Cons x xs)
  show ?case
  proof (cases "sales_key x = sales_key r")
    case True
    then show ?thesis using Cons.prems by simp
  next
    case False
    have "sales_key x \<notin> set (map sales_key (upsert_row r xs))"
      using False Cons.prems by (simp only: set_map_key_upsert_row) auto
    then show ?thesis using False Cons by simp
  qed
qed

text \<open>What a submission does, case by case.\<close>

lemma handleSubmit_cases:
  "handleSubmit env fd st =
     (if \<not> modal_validateForm fd then (Submit_invalid (modal_validateForm_errors fd), st)
      else case Option.bind (form_date fd) month_year_of of
        None \<Rightarrow> (Submit_failed, st)
      | Some m \<Rightarrow>
          if \<not> fetch_ok env then (Submit_failed, st)
          else case json_number (updated_total st fd m) of
            None \<Rightarrow> (Submit_failed, st)
          | Some c \<Rightarrow>
              if store_accepts env fd st
              then (Submit_success,
                    st\<lparr>sales := upsert_row
                      \<lparr>sales_user_id = form_user_id fd, sales_connections = c,
                       sales_month_year = m, sales_updated_at = now_iso env\<rparr> (sales st)\<rparr>)
              else (Submit_failed, st))"
proof (cases "modal_validateForm fd")
  case False
  then show ?thesis by (simp add: handleSubmit_def)
next
  case True
  show ?thesis
  proof (cases "Option.bind (form_date fd) month_year_of")
    case None
    then show ?thesis using True by (simp add: handleSubmit_def)
  next
    case (Some m)
    show ?thesis
      using True Some
      by (auto simp: handleSubmit_def single_def upsert_def stored_rows_def updated_total_def
          store_accepts_def Let_def split: list.splits option.splits)
  qed
qed

lemma updated_total_exact:
  assumes d: "distinct (map sales_key (sales st))"
    and s: "0 \<le> stored_connections st (form_user_id fd) m"
    and v: "modal_validateForm fd"
    and b: "stored_connections st (form_user_id fd) m + delta_connections fd \<le> 2 ^ 53"
  shows "updated_total st fd m =
           Finite (stored_connections st (form_user_id fd) m + delta_connections fd)"
proof -
  obtain n where n: "parseInt_mathInt (form_connections fd) = Some n" "0 \<le> n"
    using v by (auto simp: modal_validateForm_iff)
  then have dl: "delta_connections fd = n"
    by (simp add: delta_connections_def)
  have "\<bar>n\<bar> \<le> 2 ^ 53"
    using n(2) s b dl by simp
  then have p: "parseInt (form_connections fd) = Finite n"
    using n(1) by (simp add: parseInt_exact)
  have c: "(case stored_rows st (form_user_id fd) m of
              [r] \<Rightarrow> to_number (sales_connections r) | _ \<Rightarrow> Finite 0) =
           Finite (stored_connections st (form_user_id fd) m)"
  proof -
    have "\<bar>stored_connections st (form_user_id fd) m\<bar> \<le> 2 ^ 53"
      using s b dl n(2) by simp
    then have "to_number (stored_connections st (form_user_id fd) m) =
        Finite (stored_connections st (form_user_id fd) m)"
      by (rule to_number_exact)
    then show ?thesis
      using stored_rows_distinct [OF d, of "form_user_id fd" m]
      by (auto simp: stored_connections_def)
  qed
  have "\<bar>stored_connections st (form_user_id fd) m + n\<bar> \<le> 2 ^ 53"
    using s b dl n(2) by simp
  then show ?thesis
    by (simp add: updated_total_def c p dl to_number_exact)
qed

lemma handleSubmit_users: "users (snd (handleSubmit env fd st)) = users st"
  by (simp add: handleSubmit_cases split: option.splits)

lemma store_accepts_users:
  "users st' = users st \<Longrightarrow> store_accepts env fd st' = store_accepts env fd st"
  by (simp add: store_accepts_def)

lemma handleSubmit_step:
  assumes d: "distinct (map sales_key (sales st))"
    and ok: "fetch_ok env" "store_accepts env fd st"
    and v: "modal_validateForm fd"
    and m: "Option.bind (form_date fd) month_year_of = Some m"
    and s: "0 \<le> stored_connections st (form_user_id fd) m"
    and b: "stored_connections st (form_user_id fd) m + delta_connections fd \<le> 2 ^ 53"
  shows "handleSubmit env fd st =
           (Submit_success,
            st\<lparr>sales := upsert_row
               \<lparr>sales_user_id = form_user_id fd,
                sales_connections = stored_connections st (form_user_id fd) m + delta_connections fd,
                sales_month_year = m, sales_updated_at = now_iso env\<rparr> (sales st)\<rparr>)"
  using ok v m
  by (simp add: handleSubmit_cases updated_total_exact [OF d s v b] json_number_def)

lemma handleSubmit_step_stored:
  assumes d: "distinct (map sales_key (sales st))"
    and ok: "fetch_ok env" "store_accepts env fd st"
    and v: "modal_validateForm fd"
    and m: "Option.bind (form_date fd) month_year_of = Some m"
    and s: "0 \<le> stored_connections st (form_user_id fd) m"
    and b: "stored_connections st (form_user_id fd) m + delta_connections fd \<le> 2 ^ 53"
  shows "distinct (map sales_key (sales (snd (handleSubmit env fd st))))"
    and "stored_rows (snd (handleSubmit env fd st)) (form_user_id fd) m =
           [\<lparr>sales_user_id = form_user_id fd,
             sales_connections = stored_connections st (form_user_id fd) m + delta_connections fd,
             sales_month_year = m, sales_updated_at = now_iso env\<rparr>]"
    and "stored_connections (snd (handleSubmit env fd st)) (form_user_id fd) m =
           stored_connections st (form_user_id fd) m + delta_connections fd"
proof -
  let ?r = "\<lparr>sales_user_id = form_user_id fd,
             sales_connections = stored_connections st (form_user_id fd) m + delta_connections fd,
             sales_month_year = m, sales_updated_at = now_iso env\<rparr>"
  have s: "sales (snd (handleSubmit env fd st)) = upsert_row ?r (sales st)"
    by (simp add: handleSubmit_step [OF assms])
  show "distinct (map sales_key (sales (snd (handleSubmit env fd st))))"
    by (simp only: s distinct_upsert_row [OF d])
  have k: "sales_key ?r = (form_user_id fd, m)"
    by (simp add: sales_key_def)
  show rows: "stored_rows (snd (handleSubmit env fd st)) (form_user_id fd) m = [?r]"
    using filter_upsert_row_same [OF d, of ?r] by (simp only: stored_rows_key s k)
  show "stored_connections (snd (handleSubmit env fd st)) (form_user_id fd) m =
           stored_connections st (form_user_id fd) m + delta_connections fd"
    by (simp add: stored_connections_def rows)
qed

lemma sum_deltas_nonneg:
  assumes "\<forall>(env, fd) \<in> set subs. modal_validateForm fd"
  shows "0 \<le> sum_list (map (\<lambda>(env, fd). delta_connections fd) subs)"
  using assms by (induction subs) (auto simp: delta_connections_nonneg)

lemma submit_all_sum:
  assumes "distinct (map sales_key (sales st))"
    and "\<forall>(env, fd) \<in> set subs. fetch_ok env \<and> store_accepts env fd st \<and> modal_validateForm fd \<and>
           form_user_id fd = u \<and> Option.bind (form_date fd) month_year_of = Some m"
    and "0 \<le> stored_connections st u m"
    and "stored_connections st u m + sum_list (map (\<lambda>(env, fd). delta_connections fd) subs) \<le> 2 ^ 53"
  shows "distinct (map sales_key (sales (submit_all subs st))) \<and>
         stored_connections (submit_all subs st) u m =
           stored_connections st u m + sum_list (map (\<lambda>(env, fd). delta_connections fd) subs) \<and>
         (subs \<noteq> [] \<longrightarrow> (\<exists>r. stored_rows (submit_all subs st) u m = [r]))"
  using assms
proof (induction subs arbitrary: st)
  case Nil
  then show ?case by simp
next
  case (Cons p subs)
  obtain env fd where p: "p = (env, fd)" by (cases p)
  have ok: "fetch_ok env" "store_accepts env fd st" and v: "modal_validateForm fd"
    and u: "form_user_id fd = u" and m: "Option.bind (form_date fd) month_year_of = Some m"
    using Cons.prems(2) p by auto
  have rest_valid: "\<forall>(env, fd) \<in> set subs. modal_validateForm fd"
    using Cons.prems(2) by auto
  have dn: "0 \<le> delta_connections fd"
    using v by (rule delta_connections_nonneg)
  have rn: "0 \<le> sum_list (map (\<lambda>(env, fd). delta_connections fd) subs)"
    using rest_valid by (rule sum_deltas_nonneg)
  have s0: "0 \<le> stored_connections st (form_user_id fd) m"
    using Cons.prems(3) u by simp
  have b0: "stored_connections st (form_user_id fd) m + delta_connections fd \<le> 2 ^ 53"
    using Cons.prems(4) rn u by (simp add: p)
  let ?st = "snd (handleSubmit env fd st)"
  note step = handleSubmit_step_stored [OF Cons.prems(1) ok v m s0 b0]
  have d': "distinct (map sales_key (sales ?st))"
    by (rule step(1))
  have c': "stored_connections ?st u m = stored_connections st u m + delta_connections fd"
    using step(3) u by simp
  have us: "users ?st = users st"
    by (rule handleSubmit_users)
  have rest: "\<forall>(env, fd) \<in> set subs. fetch_ok env \<and> store_accepts env fd ?st \<and>
           modal_validateForm fd \<and> form_user_id fd = u \<and>
           Option.bind (form_date fd) month_year_of = Some m"
    using Cons.prems(2) by (simp add: store_accepts_users [OF us])
  have s': "0 \<le> stored_connections ?st u m"
    using c' Cons.prems(3) dn by simp
  have b': "stored_connections ?st u m + sum_list (map (\<lambda>(env, fd). delta_connections fd) subs)
      \<le> 2 ^ 53"
    using c' Cons.prems(4) by (simp add: p)
  note IH = Cons.IH [OF d' rest s' b']
  have row: "\<exists>r. stored_rows (submit_all (p # subs) st) u m = [r]"
  proof (cases "subs = []")
    case True
    then show ?thesis using step(2) u by (simp add: p)
  next
    case False
    then show ?thesis using IH by (simp add: p)
  qed
  from IH c' row show ?case
    by (simp add: p)
qed



lemma handleSubmit_writes:
  assumes "modal_validateForm fd" and "Option.bind (form_date fd) month_year_of = Some m"
    and "fetch_ok env" and "store_accepts env fd st"
    and "json_number (updated_total st fd m) = Some c"
  shows "handleSubmit env fd st =
           (Submit_success,
            st\<lparr>sales := upsert_row
               \<lparr>sales_user_id = form_user_id fd, sales_connections = c,
                sales_month_year = m, sales_updated_at = now_iso env\<rparr> (sales st)\<rparr>)"
  using assms by (simp add: handleSubmit_cases)


lemma handleSubmit_refused:
  assumes "modal_validateForm fd" and "\<not> store_accepts env fd st"
  shows "handleSubmit env fd st = (Submit_failed, st)"
  using assms by (simp add: handleSubmit_cases split: option.splits)

lemma handleSubmit_unanswered:
  assumes "modal_validateForm fd" and "\<not> fetch_ok env"
  shows "handleSubmit env fd st = (Submit_failed, st)"
  using assms by (simp add: handleSubmit_cases split: option.splits)

lemma handleSubmit_ignores_users:
  "\<not> sales_references_users env \<Longrightarrow>
   handleSubmit env fd (st\<lparr>users := us\<rparr>) =
     (fst (handleSubmit env fd st), (snd (handleSubmit env fd st))\<lparr>users := us\<rparr>)"
  by (simp add: handleSubmit_cases stored_rows_def updated_total_def store_accepts_def
      split: option.splits)

section \<open>The sales ledger on the example data\<close>

lemmas parseInt_eval =
  parseInt_mathInt_def is_space_def is_radix_digit_def is_digit_def digit_value_def

lemma mathInt_examples:
  "parseInt_mathInt ''5'' = Some 5" "parseInt_mathInt ''7'' = Some 7"
  "parseInt_mathInt ''1'' = Some 1"
  "parseInt_mathInt ''9007199254740992'' = Some 9007199254740992"
  by (simp_all add: parseInt_eval)

lemma parseInt_examples:
  "parseInt ''5'' = Finite 5" "parseInt ''7'' = Finite 7" "parseInt ''1'' = Finite 1"
  "parseInt ''9007199254740992'' = Finite 9007199254740992"
  by (simp_all add: parseInt_exact mathInt_examples)

lemma trim_examples:
  "trim ''5'' = ''5''" "trim ''7'' = ''7''" "trim ''1'' = ''1''"
  "trim ''9007199254740992'' = ''9007199254740992''"
  by (simp_all add: trim_def is_space_def)

lemma example_form_valid:
  "u \<noteq> [] \<Longrightarrow> modal_validateForm (example_form u ''5'' t)"
  "u \<noteq> [] \<Longrightarrow> modal_validateForm (example_form u ''7'' t)"
  "u \<noteq> [] \<Longrightarrow> modal_validateForm (example_form u ''1'' t)"
  "u \<noteq> [] \<Longrightarrow> modal_validateForm (example_form u ''9007199254740992'' t)"
  by (simp_all add: modal_validateForm_iff example_form_def mathInt_examples trim_examples)

lemma example_form_delta:
  "delta_connections (example_form u ''5'' t) = 5"
  "delta_connections (example_form u ''7'' t) = 7"
  "delta_connections (example_form u ''1'' t) = 1"
  "delta_connections (example_form u ''9007199254740992'' t) = 9007199254740992"
  by (simp_all add: delta_connections_def example_form_def mathInt_examples)

lemma example_form_month:
  "Option.bind (form_date (example_form u c (example_time 2025 4 d))) month_year_of = Some ''2025-04''"
  by (simp add: example_form_def month_2025_04)

lemma example_store_distinct: "distinct (map sales_key (sales example_store))"
  by (simp add: example_store_def sales_key_def)

lemma example_store_april:
  "stored_rows example_store u ''2025-04'' = []" "stored_connections example_store u ''2025-04'' = 0"
  by (simp_all add: stored_connections_def stored_rows_def example_store_def)

lemma example_store_accepts:
  "store_accepts example_env (example_form ''c'' c t) example_store"
  "store_accepts example_env_no_reference (example_form u c t) example_store"
  by (simp_all add: store_accepts_def example_env_def example_env_no_reference_def
      example_form_def example_store_def example_users_def)

text \<open>The double next to \<open>2^53\<close>: adding 1 to \<open>2^53\<close> gives \<open>2^53\<close>.\<close>

lemma to_number_2_53_plus_1: "to_number 9007199254740993 = Finite 9007199254740992"
proof -
  have "ulp 9007199254740993 = 2 * ulp (9007199254740993 div 2)"
    by (rule ulp_large) simp
  also have "(9007199254740993::nat) div 2 = 4503599627370496" by simp
  also have "ulp 4503599627370496 = 1" by (rule ulp_small) simp
  finally have u: "ulp 9007199254740993 = 2" by simp
  have "round_to_double 9007199254740993 = 9007199254740992"
    by (simp only: round_to_double_def u Let_def) simp
  then show ?thesis
    by (simp add: to_number_def Let_def)
qed


lemma example_upsert_new:
  "u \<noteq> ''a'' \<or> m \<noteq> ''2025-02'' \<Longrightarrow> m \<noteq> ''2025-03'' \<Longrightarrow>
   upsert_row \<lparr>sales_user_id = u, sales_connections = c, sales_month_year = m,
               sales_updated_at = t\<rparr> (sales example_store) =
   sales example_store @
     [\<lparr>sales_user_id = u, sales_connections = c, sales_month_year = m, sales_updated_at = t\<rparr>]"
  by (auto simp: example_store_def sales_key_def)

lemma example_total_5:
  "json_number (updated_total example_store (example_form u ''5'' t) ''2025-04'') = Some 5"
  by (simp add: updated_total_def example_store_april parseInt_examples json_number_def
      to_number_exact) (simp add: example_form_def parseInt_examples to_number_exact)

section \<open>Claims about the sales ledger\<close>

text \<open>
  C1, as amended. Submissions of valid forms for one user and one month, made one after
  the other, each read answered and each row taken by the store, on a ledger with one row
  per key whose total for the key is not negative: as long as that total plus the sum of
  the submitted deltas does not exceed \<open>2^53\<close>, the ledger ends with that total (0 when
  there was no record) plus the sum of the deltas, none of which is negative.
\<close>

theorem serial_submissions_sum:
  assumes "distinct (map sales_key (sales st))"
    and "\<forall>(env, fd) \<in> set subs. fetch_ok env \<and> store_accepts env fd st \<and> modal_validateForm fd \<and>
           form_user_id fd = u \<and> Option.bind (form_date fd) month_year_of = Some m"
    and "0 \<le> stored_connections st u m"
    and "stored_connections st u m + sum_list (map (\<lambda>(env, fd). delta_connections fd) subs) \<le> 2 ^ 53"
  shows "stored_connections (submit_all subs st) u m =
           stored_connections st u m + sum_list (map (\<lambda>(env, fd). delta_connections fd) subs) \<and>
         (stored_rows st u m = [] \<longrightarrow>
            stored_connections (submit_all subs st) u m =
              sum_list (map (\<lambda>(env, fd). delta_connections fd) subs)) \<and>
         (subs \<noteq> [] \<longrightarrow>
            (\<exists>r. stored_rows (submit_all subs st) u m = [r] \<and>
                 sales_connections r = stored_connections (submit_all subs st) u m)) \<and>
         (\<forall>(env, fd) \<in> set subs. 0 \<le> delta_connections fd)"
proof -
  note all = submit_all_sum [OF assms]
  have total: "stored_connections (submit_all subs st) u m =
           stored_connections st u m + sum_list (map (\<lambda>(env, fd). delta_connections fd) subs)"
    using all by simp
  have absent: "stored_connections st u m = 0" if "stored_rows st u m = []"
    using that by (simp add: stored_connections_def)
  have row: "\<exists>r. stored_rows (submit_all subs st) u m = [r] \<and>
                 sales_connections r = stored_connections (submit_all subs st) u m"
    if ne: "subs \<noteq> []"
  proof -
    obtain r where "stored_rows (submit_all subs st) u m = [r]"
      using all ne by blast
    then show ?thesis by (simp add: stored_connections_def)
  qed
  have nonneg: "\<forall>(env, fd) \<in> set subs. 0 \<le> delta_connections fd"
    using assms(2) delta_connections_nonneg by auto
  show ?thesis
    using total absent row nonneg by simp
qed

theorem serial_submissions_sum_witness:
  "stored_rows example_store ''c'' ''2025-04'' = [] \<and>
   stored_connections
     (submit_all [(example_env, example_form ''c'' ''5'' (example_time 2025 4 2)),
                  (example_env, example_form ''c'' ''7'' (example_time 2025 4 28))]
        example_store) ''c'' ''2025-04'' = 12"
proof -
  let ?subs = "[(example_env, example_form ''c'' ''5'' (example_time 2025 4 2)),
                (example_env, example_form ''c'' ''7'' (example_time 2025 4 28))]"
  have h: "\<forall>(env, fd) \<in> set ?subs. fetch_ok env \<and> store_accepts env fd example_store \<and>
           modal_validateForm fd \<and> form_user_id fd = ''c'' \<and>
           Option.bind (form_date fd) month_year_of = Some ''2025-04''"
    by (simp add: example_form_valid example_form_month example_store_accepts)
      (simp add: example_form_def example_env_def)
  have s: "sum_list (map (\<lambda>(env, fd). delta_connections fd) ?subs) = 12"
    by (simp add: example_form_delta)
  have z: "0 \<le> stored_connections example_store ''c'' ''2025-04''"
    by (simp add: example_store_april)
  have b: "stored_connections example_store ''c'' ''2025-04'' +
      sum_list (map (\<lambda>(env, fd). delta_connections fd) ?subs) \<le> 2 ^ 53"
    by (simp add: example_store_april example_form_delta)
  from serial_submissions_sum [OF example_store_distinct h z b] example_store_april(1) [of "''c''"] s
  show ?thesis by simp
qed

text \<open>
  C1 as stated fails beyond \<open>2^53\<close>: connections are JavaScript numbers. On an empty
  record, the deltas 9007199254740992 and 1, both answered, leave 9007199254740992, not
  their sum 9007199254740993.
\<close>

theorem serial_submissions_sum_counterexample:
  "stored_rows example_store ''c'' ''2025-04'' = [] \<and>
   delta_connections (example_form ''c'' ''9007199254740992'' (example_time 2025 4 2))
     = 9007199254740992 \<and>
   delta_connections (example_form ''c'' ''1'' (example_time 2025 4 28)) = 1 \<and>
   stored_connections
     (submit_all [(example_env, example_form ''c'' ''9007199254740992'' (example_time 2025 4 2)),
                  (example_env, example_form ''c'' ''1'' (example_time 2025 4 28))]
        example_store) ''c'' ''2025-04'' = 9007199254740992"
proof -
  let ?f1 = "example_form ''c'' ''9007199254740992'' (example_time 2025 4 2)"
  let ?f2 = "example_form ''c'' ''1'' (example_time 2025 4 28)"
  let ?r = "\<lparr>sales_user_id = ''c'', sales_connections = 9007199254740992,
        sales_month_year = ''2025-04'', sales_updated_at = ''2025-03-09T09:30:00.000Z''\<rparr>"
  define st1 where "st1 = snd (handleSubmit example_env ?f1 example_store)"
  have u: "form_user_id ?f1 = ''c''" "form_user_id ?f2 = ''c''"
    by (simp_all add: example_form_def)
  have ok: "fetch_ok example_env" "now_iso example_env = ''2025-03-09T09:30:00.000Z''"
    by (simp_all add: example_env_def)
  have v1: "modal_validateForm ?f1" and v2: "modal_validateForm ?f2"
    by (simp_all add: example_form_valid)
  have s0: "0 \<le> stored_connections example_store (form_user_id ?f1) ''2025-04''"
    by (simp add: example_store_april)
  have b0: "stored_connections example_store (form_user_id ?f1) ''2025-04'' + delta_connections ?f1
      \<le> 2 ^ 53"
    by (simp add: example_store_april example_form_delta)
  note step1 = handleSubmit_step_stored [OF example_store_distinct ok(1) example_store_accepts(1)
      v1 example_form_month s0 b0, folded st1_def]
  have d1: "distinct (map sales_key (sales st1))"
    by (rule step1(1))
  have rows1: "stored_rows st1 ''c'' ''2025-04'' = [?r]"
    using step1(2) by (simp only: u ok example_store_april example_form_delta) simp
  have "num_add (to_number 9007199254740992) (parseInt ''1'') = Finite 9007199254740992"
    using to_number_2_53_plus_1 by (simp add: to_number_exact parseInt_examples)
  then have total: "updated_total st1 ?f2 ''2025-04'' = Finite 9007199254740992"
    by (simp add: updated_total_def u rows1) (simp add: example_form_def)
  have us: "users st1 = users example_store"
    unfolding st1_def by (rule handleSubmit_users)
  have acc: "store_accepts example_env ?f2 st1"
    using example_store_accepts(1) by (simp only: store_accepts_users [OF us])
  have "sales (snd (handleSubmit example_env ?f2 st1)) = upsert_row ?r (sales st1)"
    using v2 acc
    by (simp add: handleSubmit_cases example_form_month total json_number_def ok u)
  then have "stored_rows (snd (handleSubmit example_env ?f2 st1)) ''c'' ''2025-04'' = [?r]"
    using filter_upsert_row_same [OF d1, of ?r]
    by (simp add: stored_rows_key sales_key_def)
  then have "stored_connections (snd (handleSubmit example_env ?f2 st1)) ''c'' ''2025-04'' =
      9007199254740992"
    by (simp add: stored_connections_def)
  then have "stored_connections
     (submit_all [(example_env, ?f1), (example_env, ?f2)] example_store) ''c'' ''2025-04''
       = 9007199254740992"
    unfolding st1_def by (simp only: submit_all.simps)
  then show ?thesis
    by (simp only: example_store_april example_form_delta simp_thms)
qed



text \<open>
  C6, as amended. \<open>handleSubmit\<close> never looks the user up and has no outcome of its own for
  an unknown user. An empty \<open>user_id\<close> fails validation and nothing is written. For a valid
  form whose read and upsert are answered and whose total is finite, the row is written
  whenever the \<open>sales\<close> table does not reference \<open>users\<close> or the user exists. Where the table
  does reference \<open>users\<close>, a valid form for an unknown user ends in \<open>Submit_failed\<close> with
  nothing written, which is also how a valid form ends when the read or the upsert is not
  answered. Without the reference the result does not depend on the \<open>users\<close> table at all.
\<close>

theorem handleSubmit_no_user_lookup:
  "(form_user_id fd = [] \<longrightarrow>
      handleSubmit env fd st = (Submit_invalid (modal_validateForm_errors fd), st) \<and>
      (''user_id'', ''Please select a sales agent'') \<in> set (modal_validateForm_errors fd)) \<and>
   (modal_validateForm fd \<and> Option.bind (form_date fd) month_year_of = Some m \<and>
    fetch_ok env \<and> upsert_ok env \<and> json_number (updated_total st fd m) = Some c \<and>
    (\<not> sales_references_users env \<or> form_user_id fd \<in> set (map users_id (users st))) \<longrightarrow>
      handleSubmit env fd st =
        (Submit_success,
         st\<lparr>sales := upsert_row
            \<lparr>sales_user_id = form_user_id fd, sales_connections = c,
             sales_month_year = m, sales_updated_at = now_iso env\<rparr> (sales st)\<rparr>)) \<and>
   (modal_validateForm fd \<and> sales_references_users env \<and>
    form_user_id fd \<notin> set (map users_id (users st)) \<longrightarrow>
      handleSubmit env fd st = (Submit_failed, st)) \<and>
   (modal_validateForm fd \<and> (\<not> fetch_ok env \<or> \<not> upsert_ok env) \<longrightarrow>
      handleSubmit env fd st = (Submit_failed, st)) \<and>
   (\<not> sales_references_users env \<longrightarrow>
      handleSubmit env fd (st\<lparr>users := us\<rparr>) =
        (fst (handleSubmit env fd st), (snd (handleSubmit env fd st))\<lparr>users := us\<rparr>))"
proof -
  have empty: "handleSubmit env fd st = (Submit_invalid (modal_validateForm_errors fd), st) \<and>
      (''user_id'', ''Please select a sales agent'') \<in> set (modal_validateForm_errors fd)"
    if "form_user_id fd = []"
  proof -
    have "\<not> modal_validateForm fd"
      using that by (simp add: modal_validateForm_iff)
    moreover have "(''user_id'', ''Please select a sales agent'') \<in> set (modal_validateForm_errors fd)"
      using that by (simp add: modal_validateForm_errors_def)
    ultimately show ?thesis
      by (simp add: handleSubmit_cases)
  qed
  have written: "handleSubmit env fd st =
        (Submit_success,
         st\<lparr>sales := upsert_row
            \<lparr>sales_user_id = form_user_id fd, sales_connections = c,
             sales_month_year = m, sales_updated_at = now_iso env\<rparr> (sales st)\<rparr>)"
    if "modal_validateForm fd" "Option.bind (form_date fd) month_year_of = Some m"
      "fetch_ok env" "upsert_ok env" "json_number (updated_total st fd m) = Some c"
      "\<not> sales_references_users env \<or> form_user_id fd \<in> set (map users_id (users st))"
  proof -
    have "store_accepts env fd st"
      using that(4,6) by (auto simp: store_accepts_def)
    then show ?thesis
      using handleSubmit_writes [OF that(1,2,3) _ that(5)] by simp
  qed
  have unknown: "handleSubmit env fd st = (Submit_failed, st)"
    if "modal_validateForm fd" "sales_references_users env"
      "form_user_id fd \<notin> set (map users_id (users st))"
    using that by (intro handleSubmit_refused) (simp_all add: store_accepts_def)
  have down: "handleSubmit env fd st = (Submit_failed, st)"
    if "modal_validateForm fd" "\<not> fetch_ok env \<or> \<not> upsert_ok env"
    using that handleSubmit_unanswered [of fd env st] handleSubmit_refused [of fd env st]
    by (auto simp: store_accepts_def)
  show ?thesis
    using empty written unknown down handleSubmit_ignores_users by blast
qed

theorem handleSubmit_no_user_lookup_witness:
  "handleSubmit example_env (example_form [] ''5'' (example_time 2025 4 2)) example_store =
     (Submit_invalid [(''user_id'', ''Please select a sales agent'')], example_store) \<and>
   handleSubmit example_env (example_form ''c'' ''5'' (example_time 2025 4 2)) example_store =
     (Submit_success,
      example_store\<lparr>sales := sales example_store @
        [\<lparr>sales_user_id = ''c'', sales_connections = 5, sales_month_year = ''2025-04'',
          sales_updated_at = ''2025-03-09T09:30:00.000Z''\<rparr>]\<rparr>) \<and>
   ''ghost'' \<notin> set (map users_id (users example_store)) \<and>
   handleSubmit example_env (example_form ''ghost'' ''5'' (example_time 2025 4 2)) example_store =
     (Submit_failed, example_store) \<and>
   handleSubmit example_env_down (example_form ''c'' ''5'' (example_time 2025 4 2)) example_store =
     (Submit_failed, example_store)"
proof -
  let ?t = "example_time 2025 4 2"
  have e: "form_user_id (example_form [] ''5'' ?t) = []"
    by (simp add: example_form_def)
  have errs: "modal_validateForm_errors (example_form [] ''5'' ?t) =
      [(''user_id'', ''Please select a sales agent'')]"
    by (simp add: modal_validateForm_errors_def example_form_def trim_examples parseInt_examples
        isNaN_def negative_def)
  from handleSubmit_no_user_lookup
         [where env = example_env and fd = "example_form [] ''5'' ?t" and st = example_store] e
  have a: "handleSubmit example_env (example_form [] ''5'' ?t) example_store =
     (Submit_invalid (modal_validateForm_errors (example_form [] ''5'' ?t)), example_store)"
    by blast
  have u: "form_user_id (example_form ''c'' ''5'' ?t) = ''c''"
    "form_user_id (example_form ''ghost'' ''5'' ?t) = ''ghost''"
    "now_iso example_env = ''2025-03-09T09:30:00.000Z''"
    by (simp_all add: example_form_def example_env_def)
  have h2: "modal_validateForm (example_form ''c'' ''5'' ?t) \<and>
    Option.bind (form_date (example_form ''c'' ''5'' ?t)) month_year_of = Some ''2025-04'' \<and>
    fetch_ok example_env \<and> upsert_ok example_env \<and>
    json_number (updated_total example_store (example_form ''c'' ''5'' ?t) ''2025-04'') = Some 5 \<and>
    (\<not> sales_references_users example_env \<or>
     form_user_id (example_form ''c'' ''5'' ?t) \<in> set (map users_id (users example_store)))"
    by (simp add: example_form_valid example_form_month example_total_5 u)
       (simp add: example_env_def example_store_def example_users_def)
  from handleSubmit_no_user_lookup
         [where env = example_env and fd = "example_form ''c'' ''5'' ?t" and st = example_store
            and m = "''2025-04''" and c = 5] h2
  have "handleSubmit example_env (example_form ''c'' ''5'' ?t) example_store =
        (Submit_success,
         example_store\<lparr>sales := upsert_row
            \<lparr>sales_user_id = form_user_id (example_form ''c'' ''5'' ?t), sales_connections = 5,
             sales_month_year = ''2025-04'', sales_updated_at = now_iso example_env\<rparr>
            (sales example_store)\<rparr>)"
    by blast
  then have b: "handleSubmit example_env (example_form ''c'' ''5'' ?t) example_store =
     (Submit_success,
      example_store\<lparr>sales := sales example_store @
        [\<lparr>sales_user_id = ''c'', sales_connections = 5, sales_month_year = ''2025-04'',
          sales_updated_at = ''2025-03-09T09:30:00.000Z''\<rparr>]\<rparr>)"
    by (simp add: u example_upsert_new)
  have g: "''ghost'' \<notin> set (map users_id (users example_store))"
    by (simp add: example_store_def example_users_def)
  have h3: "modal_validateForm (example_form ''ghost'' ''5'' ?t) \<and>
    sales_references_users example_env \<and>
    form_user_id (example_form ''ghost'' ''5'' ?t) \<notin> set (map users_id (users example_store))"
    using g by (simp add: example_form_valid u) (simp add: example_env_def)
  from handleSubmit_no_user_lookup
         [where env = example_env and fd = "example_form ''ghost'' ''5'' ?t" and st = example_store] h3
  have c: "handleSubmit example_env (example_form ''ghost'' ''5'' ?t) example_store =
     (Submit_failed, example_store)"
    by blast
  have h4: "modal_validateForm (example_form ''c'' ''5'' ?t) \<and>
    (\<not> fetch_ok example_env_down \<or> \<not> upsert_ok example_env_down)"
    by (simp add: example_form_valid) (simp add: example_env_down_def)
  from handleSubmit_no_user_lookup
         [where env = example_env_down and fd = "example_form ''c'' ''5'' ?t" and st = example_store] h4
  have d: "handleSubmit example_env_down (example_form ''c'' ''5'' ?t) example_store =
     (Submit_failed, example_store)"
    by blast
  from a b c d g errs show ?thesis by simp
qed

text \<open>
  C6 as stated fails. With a \<open>sales\<close> table that does not reference \<open>users\<close>, a submission for
  a \<open>user_id\<close> that no user has succeeds and adds a row to the ledger. With a table that does,
  the same submission ends in \<open>Submit_failed\<close>, the outcome that a submission for an existing
  user has when the upsert is not answered: no outcome tells that the user was not found.
\<close>

theorem handleSubmit_unknown_user_counterexample:
  "''ghost'' \<notin> set (map users_id (users example_store)) \<and>
   handleSubmit example_env_no_reference (example_form ''ghost'' ''5'' (example_time 2025 4 2))
     example_store =
     (Submit_success,
      example_store\<lparr>sales := sales example_store @
        [\<lparr>sales_user_id = ''ghost'', sales_connections = 5, sales_month_year = ''2025-04'',
          sales_updated_at = ''2025-03-09T09:30:00.000Z''\<rparr>]\<rparr>) \<and>
   handleSubmit example_env (example_form ''ghost'' ''5'' (example_time 2025 4 2)) example_store =
     (Submit_failed, example_store) \<and>
   handleSubmit example_env_down (example_form ''c'' ''5'' (example_time 2025 4 2)) example_store =
     (Submit_failed, example_store)"
proof -
  let ?fd = "example_form ''ghost'' ''5'' (example_time 2025 4 2)"
  have g: "''ghost'' \<notin> set (map users_id (users example_store))"
    by (simp add: example_store_def example_users_def)
  have u: "form_user_id ?fd = ''ghost''"
    "now_iso example_env_no_reference = ''2025-03-09T09:30:00.000Z''"
    "fetch_ok example_env_no_reference"
    by (simp_all add: example_form_def example_env_no_reference_def)
  have v: "modal_validateForm ?fd"
    by (simp add: example_form_valid)
  have "handleSubmit example_env_no_reference ?fd example_store =
     (Submit_success,
      example_store\<lparr>sales := sales example_store @
        [\<lparr>sales_user_id = ''ghost'', sales_connections = 5, sales_month_year = ''2025-04'',
          sales_updated_at = ''2025-03-09T09:30:00.000Z''\<rparr>]\<rparr>)"
    using handleSubmit_writes [OF v example_form_month u(3) example_store_accepts(2) example_total_5]
    by (simp add: u example_upsert_new)
  moreover have "handleSubmit example_env ?fd example_store = (Submit_failed, example_store)"
    using g by (intro handleSubmit_refused v) (simp add: store_accepts_def u example_env_def)
  moreover have "handleSubmit example_env_down (example_form ''c'' ''5'' (example_time 2025 4 2))
      example_store = (Submit_failed, example_store)"
    by (intro handleSubmit_refused example_form_valid)
       (simp_all add: store_accepts_def example_env_down_def)
  ultimately show ?thesis
    using g by simp
qed

text \<open>
  C9. The month key of a date should be its year and month, \<open>YYYY-MM\<close>, and dates of
  different months should have different keys. For years from 0 to 9999 the code does that
  (\<open>month_year_of_four_digit_year\<close>). The key is cut as the first seven characters of the ISO
  form, though, and for a year above 9999 those are the sign and six digits of the year: 15
  March 10000 and 15 April 10000 both have the key \<open>+010000\<close>, and submissions of 5 and 7
  for these two months end in one record holding 12.
\<close>

theorem expanded_year_months_share_bucket:
  "valid_utc_time (example_time 10000 3 15) \<and> valid_utc_time (example_time 10000 4 15) \<and>
   month_year_of (UTC (example_time 10000 3 15)) = Some ''+010000'' \<and>
   month_year_of (UTC (example_time 10000 4 15)) = Some ''+010000'' \<and>
   stored_connections
     (submit_all [(example_env, example_form ''c'' ''5'' (example_time 10000 3 15)),
                  (example_env, example_form ''c'' ''7'' (example_time 10000 4 15))]
        example_store) ''c'' ''+010000'' = 12"
proof -
  have k: "month_year_of (UTC (example_time 10000 3 15)) = Some ''+010000''"
    "month_year_of (UTC (example_time 10000 4 15)) = Some ''+010000''"
    by (simp_all add: month_year_of_expanded_year example_time_def iso_year_def
        padded_def digit_char_def upt_rec)
  have v: "valid_utc_time (example_time 10000 3 15)" "valid_utc_time (example_time 10000 4 15)"
    by (simp_all add: example_time_def valid_utc_time_def)
  let ?subs = "[(example_env, example_form ''c'' ''5'' (example_time 10000 3 15)),
                (example_env, example_form ''c'' ''7'' (example_time 10000 4 15))]"
  have z: "stored_connections example_store ''c'' ''+010000'' = 0"
    by (simp add: stored_connections_def stored_rows_def example_store_def)
  have h: "\<forall>(env, fd) \<in> set ?subs. fetch_ok env \<and> store_accepts env fd example_store \<and>
           modal_validateForm fd \<and> form_user_id fd = ''c'' \<and>
           Option.bind (form_date fd) month_year_of = Some ''+010000''"
    by (simp add: example_form_valid example_store_accepts)
       (simp add: example_form_def example_env_def k)
  have "stored_connections (submit_all ?subs example_store) ''c'' ''+010000'' =
      stored_connections example_store ''c'' ''+010000'' +
      sum_list (map (\<lambda>(env, fd). delta_connections fd) ?subs)"
    using submit_all_sum [OF example_store_distinct h]
    by (simp add: z example_form_delta)
  then have "stored_connections (submit_all ?subs example_store) ''c'' ''+010000'' = 12"
    by (simp add: z example_form_delta)
  with k v show ?thesis by simp
qed

section \<open>Registration\<close>

lemma not_space_trim:
  assumes "c \<in> set s" and "\<not> is_space c"
  shows "trim s \<noteq> []"
proof -
  have ne: "dropWhile is_space s \<noteq> []"
    using assms by (auto simp: dropWhile_eq_Nil_conv)
  then have "\<not> is_space (hd (dropWhile is_space s))"
    by (rule hd_dropWhile)
  moreover have "hd (dropWhile is_space s) \<in> set (rev (dropWhile is_space s))"
    using ne by simp
  ultimately have "dropWhile is_space (rev (dropWhile is_space s)) \<noteq> []"
    by (auto simp: dropWhile_eq_Nil_conv)
  then show ?thesis
    by (simp add: trim_def)
qed

lemma validateForm_phone:
  assumes "validateForm isLogin fd"
  shows "trim (phoneNumber fd) \<noteq> []" and "phone_digits_ok (js_replace ''+254'' [] (phoneNumber fd))"
proof -
  have "(if trim (phoneNumber fd) = [] then [(''phoneNumber'', ''Phone number is required'')]
      else
        let phoneDigits = js_replace ''+254'' [] (phoneNumber fd)
        in if \<not> phone_digits_ok phoneDigits
           then [(''phoneNumber'', ''Please enter 9 digits after +254 (starting with 1 or 7)'')]
           else []) = []"
    using assms unfolding validateForm_def validateForm_errors_def
    by (simp only: append_is_Nil_conv)
  then show "trim (phoneNumber fd) \<noteq> []" and "phone_digits_ok (js_replace ''+254'' [] (phoneNumber fd))"
    by (simp_all add: Let_def split: if_splits)
qed

lemma stored_phone_pattern_fullPhoneNumber:
  "stored_phone_pattern (fullPhoneNumber fd) = phone_digits_ok (js_replace ''+254'' [] (phoneNumber fd))"
  by (simp add: stored_phone_pattern_def fullPhoneNumber_def startsWith_def)

lemma fullPhoneNumber_formatted:
  "phoneNumber fd = formatPhoneNumber typed \<Longrightarrow> fullPhoneNumber fd = formatPhoneNumber typed"
proof -
  assume p: "phoneNumber fd = formatPhoneNumber typed"
  obtain ds where "formatPhoneNumber typed = ''+254'' @ ds"
    using formatPhoneNumber_shape by blast
  then show ?thesis
    using p by (simp add: fullPhoneNumber_def)
qed

lemma handleRegister_invalid:
  "\<not> validateForm False fd \<Longrightarrow>
   handleRegister env fd st = (Register_invalid (validateForm_errors False fd), st)"
  by (simp add: handleRegister_def)

lemma handleRegister_Registered:
  assumes "handleRegister env fd st = (Registered row, st')"
  shows "validateForm False fd" and "users_phone_number row = fullPhoneNumber fd"
    and "users_id_number row = trim (idNumber fd)"
    and "st' = st\<lparr>users := users st @ [row]\<rparr>"
  using assms
  by (auto simp: handleRegister_def insert_user_def Let_def split: if_splits)

lemma handleRegister_phone_conflict:
  assumes "validateForm False fd" and "distinct (map users_phone_number (users st))"
    and "fullPhoneNumber fd \<in> set (map users_phone_number (users st))" and "phone_check_ok env"
  shows "handleRegister env fd st =
           (Conflict ''Phone number already registered. Please login instead.'', st)"
proof -
  obtain r where "filter (\<lambda>u. users_phone_number u = fullPhoneNumber fd) (users st) = [r]"
    using filter_key_present [OF assms(2,3)] by blast
  then show ?thesis
    using assms(1,4) by (simp add: handleRegister_def single_def)
qed

lemma handleRegister_id_conflict:
  assumes "validateForm False fd" and "distinct (map users_id_number (users st))"
    and "trim (idNumber fd) \<in> set (map users_id_number (users st))" and "id_check_ok env"
  shows "\<exists>msg. handleRegister env fd st = (Conflict msg, st)"
proof -
  obtain r where "filter (\<lambda>u. users_id_number u = trim (idNumber fd)) (users st) = [r]"
    using filter_key_present [OF assms(2,3)] by blast
  then show ?thesis
    using assms(1,4) by (simp add: handleRegister_def single_def Let_def)
qed

section \<open>Registration on the example data\<close>

lemmas example_eval =
  validateForm_def validateForm_errors_def trim_def is_space_def all_digits_def is_digit_def
  phone_digits_ok_def Let_def example_register_form_def formatPhoneNumber_def startsWith_def

lemma format_local_number: "formatPhoneNumber ''0712345678'' = ''+254''"
  by (simp add: formatPhoneNumber_def startsWith_def)

lemma format_after_prefix: "formatPhoneNumber ''+2540712345678'' = ''+254071234567''"
  by (simp add: formatPhoneNumber_def startsWith_def is_digit_def)

lemma format_partial: "formatPhoneNumber ''+25471'' = ''+25471''"
  by (simp add: formatPhoneNumber_def startsWith_def is_digit_def)

lemma format_full: "formatPhoneNumber ''+254700111222'' = ''+254700111222''"
  by (simp add: formatPhoneNumber_def startsWith_def is_digit_def)

lemma example_register_form_valid:
  "validateForm False (example_register_form ''45678901'' ''+254700111222'' ''secret4'')"
  "validateForm False (example_register_form ''45678901'' ''+254712345678'' ''secret4'')"
  by (simp_all add: example_eval)

lemma example_register_form_errors:
  "validateForm_errors False (example_register_form ''45678901'' ''+254'' ''secret4'') =
     [(''phoneNumber'', ''Please enter 9 digits after +254 (starting with 1 or 7)'')]"
  "validateForm_errors False (example_register_form ''12345678'' ''+254712345678'' ''abc'') =
     [(''password'', ''Password must be at least 6 characters'')]"
  by (simp_all add: example_eval)

lemma example_registration:
  "handleRegister (example_register_env True)
     (example_register_form ''45678901'' ''+254700111222'' ''secret4'') example_store =
     (Registered
        \<lparr>users_id = ''d'', users_phone_number = ''+254700111222'', users_name = ''Dalila'',
         users_id_number = ''45678901'', users_password = ''secret4'', users_is_admin = False\<rparr>,
      example_store\<lparr>users := users example_store @
        [\<lparr>users_id = ''d'', users_phone_number = ''+254700111222'', users_name = ''Dalila'',
          users_id_number = ''45678901'', users_password = ''secret4'', users_is_admin = False\<rparr>]\<rparr>)"
  using example_register_form_valid(1)
  by (simp add: handleRegister_def single_def insert_user_def fullPhoneNumber_def)
     (simp add: example_register_form_def example_register_env_def example_store_def
        example_users_def trim_def is_space_def)

lemma example_conflict:
  "handleRegister (example_register_env True)
     (example_register_form ''45678901'' ''+254712345678'' ''secret4'') example_store =
     (Conflict ''Phone number already registered. Please login instead.'', example_store)"
  using example_register_form_valid(2)
  by (simp add: handleRegister_def single_def fullPhoneNumber_def)
     (simp add: example_register_form_def example_register_env_def example_store_def
        example_users_def)

text \<open>
  When the phone check is not answered, its \<open>data\<close> is null as it is when no row has the
  number, and the registration goes on to the insert: a second row with a phone number
  that is already registered.
\<close>

lemma handleRegister_unanswered_check_inserts:
  "handleRegister (example_register_env False)
     (example_register_form ''45678901'' ''+254712345678'' ''secret4'') example_store =
     (Registered
        \<lparr>users_id = ''d'', users_phone_number = ''+254712345678'', users_name = ''Dalila'',
         users_id_number = ''45678901'', users_password = ''secret4'', users_is_admin = False\<rparr>,
      example_store\<lparr>users := users example_store @
        [\<lparr>users_id = ''d'', users_phone_number = ''+254712345678'', users_name = ''Dalila'',
          users_id_number = ''45678901'', users_password = ''secret4'', users_is_admin = False\<rparr>]\<rparr>)"
  using example_register_form_valid(2)
  by (simp add: handleRegister_def single_def insert_user_def fullPhoneNumber_def)
     (simp add: example_register_form_def example_register_env_def example_store_def
        example_users_def trim_def is_space_def)

section \<open>Claims about registration\<close>

lemma handleRegister_other:
  assumes "handleRegister env fd st = (r, st')" and "\<forall>row. r \<noteq> Registered row"
  shows "st' = st"
  using assms
  by (auto simp: handleRegister_def insert_user_def Let_def split: if_splits)

lemma handleRegister_writes:
  "case handleRegister env fd st of
     (Registered row, st') \<Rightarrow>
       validateForm False fd \<and> users_phone_number row = fullPhoneNumber fd \<and>
       stored_phone_pattern (users_phone_number row) \<and> st' = st\<lparr>users := users st @ [row]\<rparr>
   | (_, st') \<Rightarrow> st' = st"
proof (cases "handleRegister env fd st")
  case (Pair r st')
  show ?thesis
  proof (cases "\<exists>row. r = Registered row")
    case True
    then obtain row where row: "r = Registered row" by blast
    note w = handleRegister_Registered [OF Pair [unfolded row]]
    have "stored_phone_pattern (users_phone_number row)"
      using w(1,2) validateForm_phone(2) [of False fd]
      by (simp add: stored_phone_pattern_fullPhoneNumber)
    then show ?thesis
      using w by (simp add: Pair row)
  next
    case False
    then have "st' = st"
      using handleRegister_other [OF Pair] by blast
    then show ?thesis
      using False by (cases r) (simp_all add: Pair)
  qed
qed

lemma handleRegister_registers:
  assumes "validateForm False fd"
    and "fullPhoneNumber fd \<notin> set (map users_phone_number (users st))"
    and "trim (idNumber fd) \<notin> set (map users_id_number (users st))"
    and "insert_ok env"
  shows "handleRegister env fd st =
           (Registered
              \<lparr>users_id = new_id env, users_phone_number = fullPhoneNumber fd,
               users_name = trim (name fd), users_id_number = trim (idNumber fd),
               users_password = password fd, users_is_admin = False\<rparr>,
            st\<lparr>users := users st @
              [\<lparr>users_id = new_id env, users_phone_number = fullPhoneNumber fd,
                users_name = trim (name fd), users_id_number = trim (idNumber fd),
                users_password = password fd, users_is_admin = False\<rparr>]\<rparr>)"
proof -
  have "filter (\<lambda>u. users_phone_number u = fullPhoneNumber fd) (users st) = []"
    using assms(2) by (simp add: filter_empty_conv) (metis imageI)
  moreover have "filter (\<lambda>u. users_id_number u = trim (idNumber fd)) (users st) = []"
    using assms(3) by (simp add: filter_empty_conv) (metis imageI)
  ultimately show ?thesis
    using assms(1,4) by (simp add: handleRegister_def single_def insert_user_def)
qed


text \<open>
  C4, as amended. \<open>formatPhoneNumber\<close> replaces a text that does not start with \<open>+254\<close> by
  the bare prefix, and otherwise keeps \<open>+254\<close> and the first nine digits that follow;
  nothing is padded. The phone field always holds what \<open>formatPhoneNumber\<close> made of the typed
  text, and the number a registration sends is then the field as it stands. Only a
  registration that ends in \<open>Registered\<close> changes the store: its form passed validation, it
  adds one row, and the phone number of the row is the number sent, \<open>+254\<close> followed by
  exactly nine digits, the first of them 1 or 7; and a valid form with a new phone number
  and a new ID number does end so when the insert is answered. When the field is not of that pattern,
  validation fails and the store is left as it was.
\<close>

theorem registered_phone_pattern:
  "(case handleRegister env fd st of
      (Registered row, st') \<Rightarrow>
        validateForm False fd \<and> users_phone_number row = fullPhoneNumber fd \<and>
        stored_phone_pattern (users_phone_number row) \<and> st' = st\<lparr>users := users st @ [row]\<rparr>
    | (_, st') \<Rightarrow> st' = st) \<and>
   (validateForm False fd \<and> fullPhoneNumber fd \<notin> set (map users_phone_number (users st)) \<and>
    trim (idNumber fd) \<notin> set (map users_id_number (users st)) \<and> insert_ok env \<longrightarrow>
      handleRegister env fd st =
        (Registered
           \<lparr>users_id = new_id env, users_phone_number = fullPhoneNumber fd,
            users_name = trim (name fd), users_id_number = trim (idNumber fd),
            users_password = password fd, users_is_admin = False\<rparr>,
         st\<lparr>users := users st @
           [\<lparr>users_id = new_id env, users_phone_number = fullPhoneNumber fd,
             users_name = trim (name fd), users_id_number = trim (idNumber fd),
             users_password = password fd, users_is_admin = False\<rparr>]\<rparr>)) \<and>
   (phoneNumber fd = formatPhoneNumber typed \<longrightarrow> fullPhoneNumber fd = formatPhoneNumber typed) \<and>
   (phoneNumber fd = formatPhoneNumber typed \<and> \<not> stored_phone_pattern (formatPhoneNumber typed) \<longrightarrow>
      \<not> validateForm isLogin fd \<and>
      handleRegister env fd st = (Register_invalid (validateForm_errors False fd), st)) \<and>
   (phoneNumber fd = formatPhoneNumber typed \<and> validateForm isLogin fd \<longrightarrow>
      stored_phone_pattern (formatPhoneNumber typed)) \<and>
   (\<not> startsWith typed ''+254'' \<longrightarrow> formatPhoneNumber typed = ''+254'') \<and>
   (startsWith typed ''+254'' \<longrightarrow>
      formatPhoneNumber typed = ''+254'' @ take 9 (filter is_digit (drop 4 typed)))"
proof -
  have passes: "stored_phone_pattern (formatPhoneNumber typed)"
    if p: "phoneNumber fd = formatPhoneNumber typed" and v: "validateForm b fd" for b
  proof -
    have "fullPhoneNumber fd = formatPhoneNumber typed"
      using p by (rule fullPhoneNumber_formatted)
    moreover have "stored_phone_pattern (fullPhoneNumber fd)"
      using validateForm_phone(2) [OF v] by (simp add: stored_phone_pattern_fullPhoneNumber)
    ultimately show ?thesis by simp
  qed
  have fails: "\<not> validateForm isLogin fd \<and>
      handleRegister env fd st = (Register_invalid (validateForm_errors False fd), st)"
    if p: "phoneNumber fd = formatPhoneNumber typed"
      and n: "\<not> stored_phone_pattern (formatPhoneNumber typed)"
  proof -
    have "\<not> validateForm b fd" for b
      using passes [OF p] n by blast
    then show ?thesis
      by (simp add: handleRegister_invalid)
  qed
  have reset: "formatPhoneNumber typed = ''+254''" if "\<not> startsWith typed ''+254''"
    using that by (simp add: formatPhoneNumber_def)
  have keeps: "formatPhoneNumber typed = ''+254'' @ take 9 (filter is_digit (drop 4 typed))"
    if "startsWith typed ''+254''"
    using that by (simp add: formatPhoneNumber_def)
  show ?thesis
    using handleRegister_writes [where env = env and fd = fd and st = st]
      handleRegister_registers [of fd st env]
      fullPhoneNumber_formatted [of fd typed]
      passes [of isLogin] fails reset keeps
    by blast
qed

theorem registered_phone_pattern_witness:
  "handleRegister (example_register_env True)
     (example_register_form ''45678901'' (formatPhoneNumber ''+2547a00-111 2223344'') ''secret4'')
     example_store =
     (Registered
        \<lparr>users_id = ''d'', users_phone_number = ''+254700111222'', users_name = ''Dalila'',
         users_id_number = ''45678901'', users_password = ''secret4'', users_is_admin = False\<rparr>,
      example_store\<lparr>users := users example_store @
        [\<lparr>users_id = ''d'', users_phone_number = ''+254700111222'', users_name = ''Dalila'',
          users_id_number = ''45678901'', users_password = ''secret4'', users_is_admin = False\<rparr>]\<rparr>) \<and>
   stored_phone_pattern ''+254700111222'' \<and>
   formatPhoneNumber ''+2547a00-111 2223344'' = ''+254700111222'' \<and>
   formatPhoneNumber ''0712345678'' = ''+254'' \<and>
   \<not> stored_phone_pattern (formatPhoneNumber ''0712345678'') \<and>
   handleRegister (example_register_env True)
     (example_register_form ''45678901'' (formatPhoneNumber ''0712345678'') ''secret4'')
     example_store =
     (Register_invalid
        [(''phoneNumber'', ''Please enter 9 digits after +254 (starting with 1 or 7)'')],
      example_store)"
proof -
  let ?row = "\<lparr>users_id = ''d'', users_phone_number = ''+254700111222'', users_name = ''Dalila'',
         users_id_number = ''45678901'', users_password = ''secret4'', users_is_admin = False\<rparr>"
  let ?typed = "''+2547a00-111 2223344''"
  let ?fd = "example_register_form ''45678901'' (formatPhoneNumber ?typed) ''secret4''"
  have s: "startsWith ?typed ''+254''"
    by (simp add: startsWith_def)
  from registered_phone_pattern [where typed = ?typed] s
  have "formatPhoneNumber ?typed = ''+254'' @ take 9 (filter is_digit (drop 4 ?typed))"
    by blast
  then have f: "formatPhoneNumber ?typed = ''+254700111222''"
    by (simp add: is_digit_def)
  have reg: "handleRegister (example_register_env True) ?fd example_store =
      (Registered ?row, example_store\<lparr>users := users example_store @ [?row]\<rparr>)"
    by (simp only: f example_registration)
  note w = registered_phone_pattern
      [where env = "example_register_env True" and fd = ?fd and st = example_store,
        THEN conjunct1]
  from w [unfolded reg prod.case register_result.case]
  have "stored_phone_pattern (users_phone_number ?row)"
    by blast
  then have a: "stored_phone_pattern ''+254700111222''"
    by (simp only: users_row.select_convs)
  let ?fd' = "example_register_form ''45678901'' (formatPhoneNumber ''0712345678'') ''secret4''"
  have n: "\<not> startsWith ''0712345678'' ''+254''"
    by (simp add: startsWith_def)
  from registered_phone_pattern [where typed = "''0712345678''"] n
  have g: "formatPhoneNumber ''0712345678'' = ''+254''"
    by blast
  have c: "\<not> stored_phone_pattern (formatPhoneNumber ''0712345678'')"
    by (simp add: g stored_phone_pattern_def phone_digits_ok_def)
  have p': "phoneNumber ?fd' = formatPhoneNumber ''0712345678''"
    by (simp add: example_register_form_def)
  from registered_phone_pattern
      [where fd = ?fd' and typed = "''0712345678''" and isLogin = False
         and env = "example_register_env True" and st = example_store] p' c
  have "handleRegister (example_register_env True) ?fd' example_store =
      (Register_invalid (validateForm_errors False ?fd'), example_store)"
    by blast
  then have d: "handleRegister (example_register_env True) ?fd' example_store =
     (Register_invalid
        [(''phoneNumber'', ''Please enter 9 digits after +254 (starting with 1 or 7)'')],
      example_store)"
    by (simp add: g example_register_form_errors)
  from reg a f g c d show ?thesis by simp
qed

text \<open>
  C4 as stated fails. The text \<open>0712345678\<close> is not turned into a number of the pattern: typed
  into an empty field it becomes the bare prefix \<open>+254\<close>, typed after the prefix it becomes
  \<open>+254071234567\<close>, and partial digits such as \<open>+25471\<close> stay partial. None of these is of the
  pattern; the registration is rejected by validation and no value is stored.
\<close>

theorem phone_normalization_counterexample:
  "formatPhoneNumber ''0712345678'' = ''+254'' \<and> \<not> stored_phone_pattern ''+254'' \<and>
   formatPhoneNumber ''+2540712345678'' = ''+254071234567'' \<and>
   \<not> stored_phone_pattern ''+254071234567'' \<and>
   formatPhoneNumber ''+25471'' = ''+25471'' \<and> \<not> stored_phone_pattern ''+25471'' \<and>
   handleRegister (example_register_env True)
     (example_register_form ''45678901'' (formatPhoneNumber ''0712345678'') ''secret4'')
     example_store =
     (Register_invalid
        [(''phoneNumber'', ''Please enter 9 digits after +254 (starting with 1 or 7)'')],
      example_store)"
proof -
  have "\<not> stored_phone_pattern ''+254''" "\<not> stored_phone_pattern ''+254071234567''"
    "\<not> stored_phone_pattern ''+25471''"
    by (simp_all add: stored_phone_pattern_def startsWith_def phone_digits_ok_def is_digit_def)
  moreover have "handleRegister (example_register_env True)
     (example_register_form ''45678901'' ''+254'' ''secret4'') example_store =
     (Register_invalid
        [(''phoneNumber'', ''Please enter 9 digits after +254 (starting with 1 or 7)'')],
      example_store)"
    by (simp add: handleRegister_def validateForm_def example_register_form_errors)
  ultimately show ?thesis
    by (simp add: format_local_number format_after_prefix format_partial)
qed

text \<open>
  C5, as amended. A registration whose form fails validation writes nothing and ends with
  the validation messages. A registration whose form passes validation, on a store where
  phone numbers and ID numbers are unique, ends in \<open>Conflict\<close> and writes nothing when the
  phone number exists and the phone check is answered, or the ID number exists and the ID
  check is answered.
\<close>

theorem handleRegister_conflict:
  "(\<not> validateForm False fd \<longrightarrow>
      handleRegister env fd st = (Register_invalid (validateForm_errors False fd), st)) \<and>
   (validateForm False fd \<and> distinct (map users_phone_number (users st)) \<and>
    distinct (map users_id_number (users st)) \<and>
    (fullPhoneNumber fd \<in> set (map users_phone_number (users st)) \<and> phone_check_ok env \<or>
     trim (idNumber fd) \<in> set (map users_id_number (users st)) \<and> id_check_ok env) \<longrightarrow>
      (\<exists>msg. handleRegister env fd st = (Conflict msg, st)))"
  using handleRegister_invalid [of fd env st] handleRegister_phone_conflict [of fd st env]
    handleRegister_id_conflict [of fd st env]
  by blast

theorem handleRegister_conflict_witness:
  "handleRegister (example_register_env True)
     (example_register_form ''45678901'' ''+254712345678'' ''secret4'') example_store =
     (Conflict ''Phone number already registered. Please login instead.'', example_store) \<and>
   handleRegister (example_register_env True)
     (example_register_form ''12345678'' ''+254712345678'' ''abc'') example_store =
     (Register_invalid [(''password'', ''Password must be at least 6 characters'')], example_store)"
proof -
  let ?fd = "example_register_form ''45678901'' ''+254712345678'' ''secret4''"
  have h: "validateForm False ?fd \<and> distinct (map users_phone_number (users example_store)) \<and>
    distinct (map users_id_number (users example_store)) \<and>
    (fullPhoneNumber ?fd \<in> set (map users_phone_number (users example_store)) \<and>
       phone_check_ok (example_register_env True) \<or>
     trim (idNumber ?fd) \<in> set (map users_id_number (users example_store)) \<and>
       id_check_ok (example_register_env True))"
    using example_register_form_valid(2)
    by (simp add: example_store_def example_users_def fullPhoneNumber_def
        example_register_form_def example_register_env_def)
  from handleRegister_conflict [of ?fd "example_register_env True" example_store] h
  obtain msg where c: "handleRegister (example_register_env True) ?fd example_store =
      (Conflict msg, example_store)"
    by blast
  have "fst (handleRegister (example_register_env True) ?fd example_store) =
      Conflict ''Phone number already registered. Please login instead.''"
    by (simp add: example_conflict)
  with c have "handleRegister (example_register_env True) ?fd example_store =
     (Conflict ''Phone number already registered. Please login instead.'', example_store)"
    by simp
  moreover
  let ?bad = "example_register_form ''12345678'' ''+254712345678'' ''abc''"
  have "\<not> validateForm False ?bad"
    by (simp add: validateForm_def example_register_form_errors)
  with handleRegister_conflict [of ?bad "example_register_env True" example_store]
  have "handleRegister (example_register_env True) ?bad example_store =
     (Register_invalid (validateForm_errors False ?bad), example_store)"
    by blast
  ultimately show ?thesis
    by (simp add: example_register_form_errors)
qed

text \<open>
  C5 as stated fails. A registration with a phone number and an ID number that both exist,
  and a password of three characters, ends with the validation message for the password,
  not in \<open>Conflict\<close>: validation comes first and the store is not asked.
\<close>

theorem handleRegister_conflict_counterexample:
  "fullPhoneNumber (example_register_form ''12345678'' ''+254712345678'' ''abc'')
     \<in> set (map users_phone_number (users example_store)) \<and>
   trim (idNumber (example_register_form ''12345678'' ''+254712345678'' ''abc''))
     \<in> set (map users_id_number (users example_store)) \<and>
   handleRegister (example_register_env True)
     (example_register_form ''12345678'' ''+254712345678'' ''abc'') example_store =
     (Register_invalid [(''password'', ''Password must be at least 6 characters'')], example_store)"
proof -
  have "handleRegister (example_register_env True)
     (example_register_form ''12345678'' ''+254712345678'' ''abc'') example_store =
     (Register_invalid [(''password'', ''Password must be at least 6 characters'')], example_store)"
    by (simp add: handleRegister_def validateForm_def example_register_form_errors)
  then show ?thesis
    by (simp add: fullPhoneNumber_def example_register_form_def example_store_def
        example_users_def trim_def is_space_def)
qed

end
